theory Spec2Isabelle
  imports Complex_Main "HOL-Library.Sublist"
begin

section \<open>Values of the analysed data\<close>

text \<open>
  The analyser (the module \<^verbatim>\<open>lib/policy-analysis\<close>, which follows the API client in
  \<^verbatim>\<open>src/aws-iam-viewer/src/lib/api.ts\<close>) receives the policies of a parsed IAM export. Its parameter is typed \<^verbatim>\<open>IAMPolicy\<close>, but
  the statements are typed \<^verbatim>\<open>any\<close> and nothing is checked at run time, so the model takes
  the value as it is in memory: a JSON tree. A finite number is kept as the rational it
  denotes (the analyser only compares numbers and tests them for zero), a string as the
  list of its characters (the analyser only compares strings and tests them for
  emptiness), an object as the list of its own properties (the first binding of a key is
  the property).
  The result of a property read may be \<^verbatim>\<open>undefined\<close>, which is \<open>None\<close>.
\<close>

datatype json =
    JNull
  | JBool bool
  | JNum rat
  | JStr string
  | JArr "json list"
  | JObj "(string \<times> json) list"

type_synonym jsval = "json option"

datatype error = TypeError

definition bindE :: "error + 'a \<Rightarrow> ('a \<Rightarrow> error + 'b) \<Rightarrow> error + 'b" where
  "bindE m f = (case m of Inl e \<Rightarrow> Inl e | Inr x \<Rightarrow> f x)"

text \<open>
  \<^verbatim>\<open>x.k\<close>: reading a property of \<^verbatim>\<open>null\<close> or \<^verbatim>\<open>undefined\<close> throws a TypeError. The
  analyser reads only the properties PolicyVersionList, DefaultVersionId, PolicyId,
  PolicyName, VersionId, Document, Statement, Effect, Action and Resource; none of them is
  defined on the prototype of a string, number, boolean, array or plain object, so on
  anything but an object with that own property the read gives \<^verbatim>\<open>undefined\<close>.
\<close>

fun getProp :: "jsval \<Rightarrow> string \<Rightarrow> error + jsval" where
  "getProp None k = Inl TypeError"
| "getProp (Some JNull) k = Inl TypeError"
| "getProp (Some (JObj kvs)) k = Inr (map_of kvs k)"
| "getProp (Some v) k = Inr None"

text \<open>Conversion to boolean, as \<^verbatim>\<open>!x\<close> and \<^verbatim>\<open>x ? a : b\<close> do it.\<close>

fun truthy :: "jsval \<Rightarrow> bool" where
  "truthy None = False"
| "truthy (Some JNull) = False"
| "truthy (Some (JBool b)) = b"
| "truthy (Some (JNum n)) = (n \<noteq> 0)"
| "truthy (Some (JStr s)) = (s \<noteq> [])"
| "truthy (Some (JArr xs)) = True"
| "truthy (Some (JObj kvs)) = True"

text \<open>
  \<^verbatim>\<open>a === b\<close>. Arrays and objects are compared by identity; the two operands of the one
  comparison in the analyser sit at different places of the tree, so two such operands are
  never identical.
\<close>

fun strictEq :: "jsval \<Rightarrow> jsval \<Rightarrow> bool" where
  "strictEq None None = True"
| "strictEq (Some JNull) (Some JNull) = True"
| "strictEq (Some (JBool a)) (Some (JBool b)) = (a = b)"
| "strictEq (Some (JNum a)) (Some (JNum b)) = (a = b)"
| "strictEq (Some (JStr a)) (Some (JStr b)) = (a = b)"
| "strictEq a b = False"

fun isArray :: "jsval \<Rightarrow> bool" where
  "isArray (Some (JArr xs)) = True"
| "isArray v = False"

fun elems :: "jsval \<Rightarrow> jsval list" where
  "elems (Some (JArr xs)) = map Some xs"
| "elems v = []"

text \<open>\<^verbatim>\<open>typeof v === 'string'\<close>\<close>

fun isString :: "jsval \<Rightarrow> bool" where
  "isString (Some (JStr s)) = True"
| "isString v = False"

text \<open>\<^verbatim>\<open>xs.filter((a): a is string => typeof a === 'string')\<close>\<close>

fun filterStrings :: "jsval list \<Rightarrow> string list" where
  "filterStrings [] = []"
| "filterStrings (Some (JStr s) # xs) = s # filterStrings xs"
| "filterStrings (x # xs) = filterStrings xs"

text \<open>
  \<^verbatim>\<open>Array.prototype.find\<close>: the first element on which the callback holds, \<^verbatim>\<open>undefined\<close>
  when there is none; the elements after the first hit are not visited, and a callback that
  throws ends the search with its error.
\<close>

fun array_find :: "(json \<Rightarrow> error + bool) \<Rightarrow> json list \<Rightarrow> error + jsval" where
  "array_find p [] = Inr None"
| "array_find p (v # vs) =
     (case p v of
        Inl e \<Rightarrow> Inl e
      | Inr b \<Rightarrow> if b then Inr (Some v) else array_find p vs)"

text \<open>
  \<^verbatim>\<open>recv.find(p)\<close>: only an array has the method. On \<^verbatim>\<open>undefined\<close> and \<^verbatim>\<open>null\<close> the
  property read throws; on a string, number or boolean \<^verbatim>\<open>find\<close> is \<^verbatim>\<open>undefined\<close>, and on
  an object it is \<^verbatim>\<open>undefined\<close> or a JSON value, neither of which can be called.
\<close>

fun call_find :: "jsval \<Rightarrow> (json \<Rightarrow> error + bool) \<Rightarrow> error + jsval" where
  "call_find (Some (JArr vs)) p = array_find p vs"
| "call_find recv p = Inl TypeError"

section \<open>Findings and the table of dangerous patterns\<close>

datatype Severity = HIGH | MEDIUM | LOW

record SecurityFlag =
  id_flag :: string
  severity :: Severity
  title :: string
  description :: string
  recommendation :: string
  affectedStatements :: "nat list"

record PolicyAnalysisResult =
  policyId :: jsval
  policyName :: jsval
  flags :: "SecurityFlag list"
  isHighRisk :: bool

text \<open>
  An entry of \<^verbatim>\<open>DANGEROUS_PATTERNS\<close> without its \<^verbatim>\<open>pattern\<close>/\<^verbatim>\<open>patterns\<close> field, which
  has a different type from entry to entry and is given by the constants further down.
\<close>

record DangerousPattern =
  pat_severity :: Severity
  pat_title :: string
  pat_description :: string
  pat_recommendation :: string

definition WILDCARD_PERMISSION :: DangerousPattern where
  "WILDCARD_PERMISSION = \<lparr>
     pat_severity = HIGH,
     pat_title = ''Wildcard Permission'',
     pat_description = ''Policy grants wildcard permissions (*)'',
     pat_recommendation = ''Replace with specific permissions following the principle of least privilege''\<rparr>"

definition WILDCARD_IAM :: DangerousPattern where
  "WILDCARD_IAM = \<lparr>
     pat_severity = HIGH,
     pat_title = ''Wildcard IAM Permission'',
     pat_description = ''Policy grants wildcard IAM permissions (iam:*)'',
     pat_recommendation = ''Replace with specific IAM permissions following the principle of least privilege''\<rparr>"

definition WILDCARD_RESOURCE :: DangerousPattern where
  "WILDCARD_RESOURCE = \<lparr>
     pat_severity = HIGH,
     pat_title = ''Wildcard Resource'',
     pat_description = ''Policy allows all resources ('' @ [CHR 0x22] @ ''*'' @ [CHR 0x22] @ '')'',
     pat_recommendation = ''Restrict resources to specific ARNs and scopes''\<rparr>"

definition CREATE_POLICY_VERSION :: DangerousPattern where
  "CREATE_POLICY_VERSION = \<lparr>
     pat_severity = HIGH,
     pat_title = ''Create Policy Version'',
     pat_description = ''Policy allows creating a new policy version that can be set as default to escalate privileges'',
     pat_recommendation = ''Restrict iam:CreatePolicyVersion; limit which policies can be versioned and require approvals''\<rparr>"

definition POLICY_VERSION_MANIPULATION :: DangerousPattern where
  "POLICY_VERSION_MANIPULATION = \<lparr>
     pat_severity = HIGH,
     pat_title = ''Policy Version Manipulation'',
     pat_description = ''Policy allows creation or activation of policy versions'',
     pat_recommendation = ''Restrict policy version management to administrative roles only''\<rparr>"

definition PASSROLE_ANY :: DangerousPattern where
  "PASSROLE_ANY = \<lparr>
     pat_severity = HIGH,
     pat_title = ''PassRole Permission Present'',
     pat_description = ''Policy allows passing roles to AWS services, a common prerequisite for privilege escalation'',
     pat_recommendation = ''Scope iam:PassRole with resource ARNs and conditions (iam:PassedToService, aws:ResourceTag) and apply permission boundaries''\<rparr>"

definition PASSROLE_EC2 :: DangerousPattern where
  "PASSROLE_EC2 = \<lparr>
     pat_severity = HIGH,
     pat_title = ''Privilege Escalation via EC2'',
     pat_description = ''Policy allows passing roles to EC2 instances, enabling privilege escalation'',
     pat_recommendation = ''Restrict PassRole to specific roles or remove ec2:RunInstances permission''\<rparr>"

definition ACCESS_KEY_CREATION :: DangerousPattern where
  "ACCESS_KEY_CREATION = \<lparr>
     pat_severity = HIGH,
     pat_title = ''Access Key Creation'',
     pat_description = ''Policy allows creation of access keys'',
     pat_recommendation = ''Restrict access key creation to administrative users only''\<rparr>"

definition LOGIN_PROFILE_MANIPULATION :: DangerousPattern where
  "LOGIN_PROFILE_MANIPULATION = \<lparr>
     pat_severity = HIGH,
     pat_title = ''Login Profile Manipulation'',
     pat_description = ''Policy allows manipulation of user login profiles'',
     pat_recommendation = ''Restrict login profile management to administrative roles''\<rparr>"

definition POLICY_ATTACHMENT :: DangerousPattern where
  "POLICY_ATTACHMENT = \<lparr>
     pat_severity = HIGH,
     pat_title = ''Policy Attachment Permissions'',
     pat_description = ''Policy allows attaching policies to users, groups, or roles'',
     pat_recommendation = ''Restrict policy attachment to administrative roles only''\<rparr>"

definition INLINE_POLICY_MANIPULATION :: DangerousPattern where
  "INLINE_POLICY_MANIPULATION = \<lparr>
     pat_severity = HIGH,
     pat_title = ''Inline Policy Manipulation'',
     pat_description = ''Policy allows creation/modification of inline policies'',
     pat_recommendation = ''Restrict inline policy management to administrative roles''\<rparr>"

definition GROUP_MEMBERSHIP :: DangerousPattern where
  "GROUP_MEMBERSHIP = \<lparr>
     pat_severity = MEDIUM,
     pat_title = ''Group Membership Modification'',
     pat_description = ''Policy allows adding users to groups'',
     pat_recommendation = ''Restrict group membership changes to administrative roles''\<rparr>"

definition ASSUME_ROLE_POLICY_UPDATE :: DangerousPattern where
  "ASSUME_ROLE_POLICY_UPDATE = \<lparr>
     pat_severity = HIGH,
     pat_title = ''Assume Role Policy Modification'',
     pat_description = ''Policy allows modification of assume role policies'',
     pat_recommendation = ''Restrict assume role policy updates to administrative roles''\<rparr>"

definition LAMBDA_PRIVILEGE_ESCALATION :: DangerousPattern where
  "LAMBDA_PRIVILEGE_ESCALATION = \<lparr>
     pat_severity = HIGH,
     pat_title = ''Lambda Privilege Escalation'',
     pat_description = ''Policy allows creating Lambda functions with arbitrary roles'',
     pat_recommendation = ''Restrict PassRole to specific roles or remove Lambda creation permissions''\<rparr>"

definition LAMBDA_EVENT_SOURCE_MANIPULATION :: DangerousPattern where
  "LAMBDA_EVENT_SOURCE_MANIPULATION = \<lparr>
     pat_severity = HIGH,
     pat_title = ''Lambda Event Source Manipulation'',
     pat_description = ''Policy allows creating Lambda functions and event source mappings'',
     pat_recommendation = ''Restrict Lambda event source management to specific roles''\<rparr>"

definition LAMBDA_CODE_UPDATE :: DangerousPattern where
  "LAMBDA_CODE_UPDATE = \<lparr>
     pat_severity = MEDIUM,
     pat_title = ''Lambda Code Modification'',
     pat_description = ''Policy allows updating Lambda function code'',
     pat_recommendation = ''Restrict Lambda code updates to authorized developers''\<rparr>"

definition GLUE_PRIVILEGE_ESCALATION :: DangerousPattern where
  "GLUE_PRIVILEGE_ESCALATION = \<lparr>
     pat_severity = HIGH,
     pat_title = ''Glue Privilege Escalation'',
     pat_description = ''Policy allows creating Glue development endpoints with arbitrary roles'',
     pat_recommendation = ''Restrict PassRole to specific Glue roles or remove dev endpoint creation''\<rparr>"

definition GLUE_ENDPOINT_MANIPULATION :: DangerousPattern where
  "GLUE_ENDPOINT_MANIPULATION = \<lparr>
     pat_severity = MEDIUM,
     pat_title = ''Glue Endpoint Manipulation'',
     pat_description = ''Policy allows modification of Glue development endpoints'',
     pat_recommendation = ''Restrict Glue endpoint management to authorized users''\<rparr>"

definition CLOUDFORMATION_PRIVILEGE_ESCALATION :: DangerousPattern where
  "CLOUDFORMATION_PRIVILEGE_ESCALATION = \<lparr>
     pat_severity = HIGH,
     pat_title = ''CloudFormation Privilege Escalation'',
     pat_description = ''Policy allows creating CloudFormation stacks with arbitrary roles'',
     pat_recommendation = ''Restrict PassRole to specific CloudFormation roles''\<rparr>"

definition DATAPIPELINE_PRIVILEGE_ESCALATION :: DangerousPattern where
  "DATAPIPELINE_PRIVILEGE_ESCALATION = \<lparr>
     pat_severity = HIGH,
     pat_title = ''Data Pipeline Privilege Escalation'',
     pat_description = ''Policy allows creating and managing data pipelines with arbitrary roles'',
     pat_recommendation = ''Restrict PassRole to specific Data Pipeline roles''\<rparr>"

text \<open>
  The \<^verbatim>\<open>pattern\<close> and \<^verbatim>\<open>patterns\<close> fields that the analyser reads. The two regular
  expressions \<^verbatim>\<open>/^\*$/\<close> and \<^verbatim>\<open>/^iam:\*$/\<close> have no flag, so \<^verbatim>\<open>^\<close> and \<^verbatim>\<open>$\<close> match
  only at the two ends of the input and \<^verbatim>\<open>test\<close> holds for exactly one string each.
\<close>

definition WILDCARD_PERMISSION_pattern_test :: "string \<Rightarrow> bool" where
  "WILDCARD_PERMISSION_pattern_test a = (a = ''*'')"

definition WILDCARD_IAM_pattern_test :: "string \<Rightarrow> bool" where
  "WILDCARD_IAM_pattern_test a = (a = ''iam:*'')"

definition CREATE_POLICY_VERSION_pattern :: string where
  "CREATE_POLICY_VERSION_pattern = ''iam:CreatePolicyVersion''"

definition POLICY_VERSION_MANIPULATION_patterns :: "string list" where
  "POLICY_VERSION_MANIPULATION_patterns = [''iam:CreatePolicyVersion'', ''iam:SetDefaultPolicyVersion'']"

definition PASSROLE_ANY_pattern :: string where
  "PASSROLE_ANY_pattern = ''iam:PassRole''"

definition LOGIN_PROFILE_MANIPULATION_patterns :: "string list" where
  "LOGIN_PROFILE_MANIPULATION_patterns = [''iam:CreateLoginProfile'', ''iam:UpdateLoginProfile'']"

definition POLICY_ATTACHMENT_patterns :: "string list" where
  "POLICY_ATTACHMENT_patterns = [''iam:AttachUserPolicy'', ''iam:AttachGroupPolicy'', ''iam:AttachRolePolicy'']"

definition INLINE_POLICY_MANIPULATION_patterns :: "string list" where
  "INLINE_POLICY_MANIPULATION_patterns = [''iam:PutUserPolicy'', ''iam:PutGroupPolicy'', ''iam:PutRolePolicy'']"

text \<open>The object literal that every \<^verbatim>\<open>flags.push\<close> of the analyser builds.\<close>

definition mkFlag :: "string \<Rightarrow> DangerousPattern \<Rightarrow> nat \<Rightarrow> SecurityFlag" where
  "mkFlag ident p statementIndex = \<lparr>
     id_flag = ident,
     severity = pat_severity p,
     title = pat_title p,
     description = pat_description p,
     recommendation = pat_recommendation p,
     affectedStatements = [statementIndex]\<rparr>"

text \<open>\<^verbatim>\<open>if (c) { flags.push(f) }\<close>, with the array passed through.\<close>

definition pushIf :: "bool \<Rightarrow> SecurityFlag \<Rightarrow> SecurityFlag list \<Rightarrow> SecurityFlag list" where
  "pushIf c f fs = (if c then fs @ [f] else fs)"

section \<open>The analyser\<close>

text \<open>
  The checks of the \<^verbatim>\<open>forEach\<close> callback, in the order in which the callback makes
  them, on the normalised \<^verbatim>\<open>actions\<close> and \<^verbatim>\<open>resources\<close> of a statement; \<open>fs\<close> is the
  array \<^verbatim>\<open>flags\<close> on entry, the result is the array after the last check.
\<close>

definition statementChecks ::
  "string list \<Rightarrow> jsval list \<Rightarrow> nat \<Rightarrow> SecurityFlag list \<Rightarrow> SecurityFlag list" where
  "statementChecks actions resources statementIndex fs =
    (let
       f1 = pushIf (list_ex (\<lambda>r. isString r \<and> strictEq r (Some (JStr ''*''))) resources)
          (mkFlag ''wildcard-resource'' WILDCARD_RESOURCE statementIndex) fs;
       f2 = pushIf (list_ex (\<lambda>a. WILDCARD_PERMISSION_pattern_test a) actions)
          (mkFlag ''wildcard-permission'' WILDCARD_PERMISSION statementIndex) f1;
       f3 = pushIf (list_ex (\<lambda>action. WILDCARD_IAM_pattern_test action) actions)
          (mkFlag ''wildcard-iam'' WILDCARD_IAM statementIndex) f2;
       f4 = pushIf (CREATE_POLICY_VERSION_pattern \<in> set actions)
          (mkFlag ''create-policy-version'' CREATE_POLICY_VERSION statementIndex) f3;
       f5 = pushIf (list_ex (\<lambda>action. action \<in> set POLICY_VERSION_MANIPULATION_patterns) actions)
          (mkFlag ''policy-version-manipulation'' POLICY_VERSION_MANIPULATION statementIndex) f4;
       f6 = pushIf (PASSROLE_ANY_pattern \<in> set actions)
          (mkFlag ''passrole-any'' PASSROLE_ANY statementIndex) f5;
       f7 = pushIf (''iam:PassRole'' \<in> set actions \<and>
            ''ec2:RunInstances'' \<in> set actions)
          (mkFlag ''passrole-ec2'' PASSROLE_EC2 statementIndex) f6;
       f8 = pushIf (''iam:CreateAccessKey'' \<in> set actions)
          (mkFlag ''access-key-creation'' ACCESS_KEY_CREATION statementIndex) f7;
       f9 = pushIf (list_ex (\<lambda>action. action \<in> set LOGIN_PROFILE_MANIPULATION_patterns) actions)
          (mkFlag ''login-profile-manipulation'' LOGIN_PROFILE_MANIPULATION statementIndex) f8;
       f10 = pushIf (list_ex (\<lambda>action. action \<in> set POLICY_ATTACHMENT_patterns) actions)
          (mkFlag ''policy-attachment'' POLICY_ATTACHMENT statementIndex) f9;
       f11 = pushIf (list_ex (\<lambda>action. action \<in> set INLINE_POLICY_MANIPULATION_patterns) actions)
          (mkFlag ''inline-policy-manipulation'' INLINE_POLICY_MANIPULATION statementIndex) f10;
       f12 = pushIf (''iam:AddUserToGroup'' \<in> set actions)
          (mkFlag ''group-membership'' GROUP_MEMBERSHIP statementIndex) f11;
       f13 = pushIf (''iam:UpdateAssumeRolePolicy'' \<in> set actions)
          (mkFlag ''assume-role-policy-update'' ASSUME_ROLE_POLICY_UPDATE statementIndex) f12;
       f14 = pushIf (''iam:PassRole'' \<in> set actions \<and>
            ''lambda:CreateFunction'' \<in> set actions \<and>
            ''lambda:InvokeFunction'' \<in> set actions)
          (mkFlag ''lambda-privilege-escalation'' LAMBDA_PRIVILEGE_ESCALATION statementIndex) f13;
       f15 = pushIf (''iam:PassRole'' \<in> set actions \<and>
            ''lambda:CreateFunction'' \<in> set actions \<and>
            ''lambda:CreateEventSourceMapping'' \<in> set actions)
          (mkFlag ''lambda-event-source-manipulation'' LAMBDA_EVENT_SOURCE_MANIPULATION statementIndex) f14;
       f16 = pushIf (''lambda:UpdateFunctionCode'' \<in> set actions)
          (mkFlag ''lambda-code-update'' LAMBDA_CODE_UPDATE statementIndex) f15;
       f17 = pushIf (''iam:PassRole'' \<in> set actions \<and>
            ''glue:CreateDevEndpoint'' \<in> set actions \<and>
            ''glue:GetDevEndpoint'' \<in> set actions)
          (mkFlag ''glue-privilege-escalation'' GLUE_PRIVILEGE_ESCALATION statementIndex) f16;
       f18 = pushIf (''glue:UpdateDevEndpoint'' \<in> set actions \<and>
            ''glue:GetDevEndpoint'' \<in> set actions)
          (mkFlag ''glue-endpoint-manipulation'' GLUE_ENDPOINT_MANIPULATION statementIndex) f17;
       f19 = pushIf (''iam:PassRole'' \<in> set actions \<and>
            ''cloudformation:CreateStack'' \<in> set actions \<and>
            ''cloudformation:DescribeStacks'' \<in> set actions)
          (mkFlag ''cloudformation-privilege-escalation'' CLOUDFORMATION_PRIVILEGE_ESCALATION statementIndex) f18;
       f20 = pushIf (''iam:PassRole'' \<in> set actions \<and>
            ''datapipeline:CreatePipeline'' \<in> set actions \<and>
            ''datapipeline:PutPipelineDefinition'' \<in> set actions \<and>
            ''datapipeline:ActivatePipeline'' \<in> set actions)
          (mkFlag ''datapipeline-privilege-escalation'' DATAPIPELINE_PRIVILEGE_ESCALATION statementIndex) f19
     in f20)"

text \<open>
  The two normalisations at the head of the callback:
  \<^verbatim>\<open>(Array.isArray(Action) ? Action : [Action]).filter(a => typeof a === 'string')\<close> and
  \<^verbatim>\<open>Array.isArray(Resource) ? Resource : Resource !== undefined ? [Resource] : []\<close>.
\<close>

definition normalizeActions :: "jsval \<Rightarrow> string list" where
  "normalizeActions action =
     (let actionsRaw = (if isArray action then elems action else [action])
      in filterStrings actionsRaw)"

definition normalizeResources :: "jsval \<Rightarrow> jsval list" where
  "normalizeResources resourceRaw =
     (if isArray resourceRaw then elems resourceRaw
      else if resourceRaw \<noteq> None then [resourceRaw]
      else [])"

text \<open>
  The callback of \<^verbatim>\<open>statements.forEach\<close>. Reading \<^verbatim>\<open>statement.Effect\<close> throws on a
  \<^verbatim>\<open>null\<close> statement. \<open>fs\<close> is the array \<^verbatim>\<open>flags\<close> of the enclosing function, which the
  callback extends.
\<close>

definition analyzeStatement :: "json \<Rightarrow> nat \<Rightarrow> SecurityFlag list \<Rightarrow> error + SecurityFlag list" where
  "analyzeStatement statement statementIndex fs =
     bindE (getProp (Some statement) ''Effect'') (\<lambda>effect.
       if \<not> strictEq effect (Some (JStr ''Allow'')) then Inr fs
       else
         bindE (getProp (Some statement) ''Action'') (\<lambda>action.
         bindE (getProp (Some statement) ''Resource'') (\<lambda>resourceRaw.
           Inr (statementChecks (normalizeActions action) (normalizeResources resourceRaw)
                  statementIndex fs))))"

text \<open>\<^verbatim>\<open>statements.forEach((statement, statementIndex) => ...)\<close>, from index \<open>i\<close> on.\<close>

fun forEachStatement :: "json list \<Rightarrow> nat \<Rightarrow> SecurityFlag list \<Rightarrow> error + SecurityFlag list" where
  "forEachStatement [] i fs = Inr fs"
| "forEachStatement (statement # rest) i fs =
     (case analyzeStatement statement i fs of
        Inl e \<Rightarrow> Inl e
      | Inr fs' \<Rightarrow> forEachStatement rest (Suc i) fs')"

text \<open>
  The head of \<^verbatim>\<open>analyzePolicy\<close>: the default version, its document and the normalised
  array \<^verbatim>\<open>statements\<close>. \<open>Inr None\<close> is the early return (no default version, or a default
  version without a document), \<open>Inl\<close> a TypeError thrown on the way.
\<close>

definition findDefaultVersion :: "json \<Rightarrow> error + jsval" where
  "findDefaultVersion policy =
     bindE (getProp (Some policy) ''PolicyVersionList'') (\<lambda>versions.
       call_find versions (\<lambda>v.
         bindE (getProp (Some v) ''VersionId'') (\<lambda>versionId.
         bindE (getProp (Some policy) ''DefaultVersionId'') (\<lambda>defaultVersionId.
           Inr (strictEq versionId defaultVersionId)))))"

definition normalizeStatements :: "jsval \<Rightarrow> json list" where
  "normalizeStatements st =
     (case st of
        Some (JArr xs) \<Rightarrow> xs
      | Some x \<Rightarrow> if truthy st then [x] else []
      | None \<Rightarrow> [])"

definition defaultDocument :: "json \<Rightarrow> error + json option" where
  "defaultDocument policy =
     bindE (findDefaultVersion policy) (\<lambda>defaultVersion.
       if \<not> truthy defaultVersion then Inr None
       else
         bindE (getProp defaultVersion ''Document'') (\<lambda>document.
           if \<not> truthy document then Inr None else Inr document))"

definition defaultStatements :: "json \<Rightarrow> error + json list option" where
  "defaultStatements policy =
     bindE (defaultDocument policy) (\<lambda>found.
       case found of
         None \<Rightarrow> Inr None
       | Some document \<Rightarrow>
           bindE (getProp (Some document) ''Statement'') (\<lambda>st.
             Inr (Some (normalizeStatements st))))"

definition analyzePolicy :: "json \<Rightarrow> error + PolicyAnalysisResult" where
  "analyzePolicy policy =
     bindE (defaultStatements policy) (\<lambda>found.
       case found of
         None \<Rightarrow>
           bindE (getProp (Some policy) ''PolicyId'') (\<lambda>pid.
           bindE (getProp (Some policy) ''PolicyName'') (\<lambda>pname.
             Inr \<lparr>policyId = pid, policyName = pname, flags = [], isHighRisk = False\<rparr>))
       | Some statements \<Rightarrow>
           bindE (forEachStatement statements 0 []) (\<lambda>fs.
           bindE (getProp (Some policy) ''PolicyId'') (\<lambda>pid.
           bindE (getProp (Some policy) ''PolicyName'') (\<lambda>pname.
             Inr \<lparr>policyId = pid, policyName = pname, flags = fs,
                  isHighRisk = list_ex (\<lambda>flag. severity flag = HIGH) fs\<rparr>))))"

section \<open>Aggregation\<close>

text \<open>
  \<^verbatim>\<open>xs.map(f)\<close> with a callback that may throw: the first error ends the traversal.
\<close>

fun mapE :: "('a \<Rightarrow> error + 'b) \<Rightarrow> 'a list \<Rightarrow> error + 'b list" where
  "mapE f [] = Inr []"
| "mapE f (x # xs) =
     (case f x of
        Inl e \<Rightarrow> Inl e
      | Inr y \<Rightarrow> (case mapE f xs of Inl e \<Rightarrow> Inl e | Inr ys \<Rightarrow> Inr (y # ys)))"

text \<open>
  A \<^verbatim>\<open>Record<string, IAMPolicy>\<close> is the list of its own properties in the order in which
  \<^verbatim>\<open>Object.values\<close> enumerates them (keys that are array indices first, in ascending
  order, then the other keys in the order of their creation).
\<close>

type_synonym policies = "(string \<times> json) list"

definition Object_values :: "policies \<Rightarrow> json list" where
  "Object_values ps = map snd ps"

definition analyzeAllPolicies :: "policies \<Rightarrow> error + PolicyAnalysisResult list" where
  "analyzeAllPolicies ps = mapE (\<lambda>policy. analyzePolicy policy) (Object_values ps)"

definition getHighRiskPolicies :: "policies \<Rightarrow> error + PolicyAnalysisResult list" where
  "getHighRiskPolicies ps =
     bindE (analyzeAllPolicies ps) (\<lambda>analysisResults.
       Inr (filter (\<lambda>result. isHighRisk result) analysisResults))"

text \<open>
  The four counts are lengths and sums of lengths of arrays, far below \<open>2 ^ 53\<close>, where
  the arithmetic of JavaScript numbers is that of the natural numbers.
\<close>

record SecuritySummary =
  totalPolicies :: nat
  highRiskPolicies :: nat
  totalSecurityFlags :: nat
  highSeverityFlags :: nat

definition getSecuritySummary :: "policies \<Rightarrow> error + SecuritySummary" where
  "getSecuritySummary ps =
     bindE (analyzeAllPolicies ps) (\<lambda>analysisResults.
       let highRiskCount = length (filter (\<lambda>r. isHighRisk r) analysisResults);
           totalFlags = foldl (\<lambda>sum r. sum + length (flags r)) 0 analysisResults;
           highSeverityFlagsN =
             foldl (\<lambda>sum r. sum + length (filter (\<lambda>f. severity f = HIGH) (flags r))) 0 analysisResults
       in Inr \<lparr>totalPolicies = length analysisResults,
               highRiskPolicies = highRiskCount,
               totalSecurityFlags = totalFlags,
               highSeverityFlags = highSeverityFlagsN\<rparr>)"

section \<open>The rule catalogue as the specification describes it\<close>

text \<open>
  The specification (sections 3 and 4.1) describes the rules as a table from a key to a
  severity and a match specification, to be evaluated in the order of the table. The
  following definitions follow its words; the theorems below compare them with the
  analyser above. A pattern rule carries the one string its pattern matches.
\<close>

datatype RuleMatch =
    SingleActionExact string
  | SingleActionPattern string
  | ResourceWildcard
  | ActionAnyOf "string list"
  | ActionCoOccurrence "string list"

type_synonym Rule = "string \<times> DangerousPattern \<times> RuleMatch"

fun ruleFires :: "RuleMatch \<Rightarrow> string list \<Rightarrow> jsval list \<Rightarrow> bool" where
  "ruleFires (SingleActionExact a) actions resources = (a \<in> set actions)"
| "ruleFires (SingleActionPattern a) actions resources = (a \<in> set actions)"
| "ruleFires ResourceWildcard actions resources = (Some (JStr ''*'') \<in> set resources)"
| "ruleFires (ActionAnyOf ps) actions resources = list_ex (\<lambda>p. p \<in> set actions) ps"
| "ruleFires (ActionCoOccurrence ps) actions resources = list_all (\<lambda>p. p \<in> set actions) ps"

definition wildcardPermissionRule :: Rule where
  "wildcardPermissionRule = (''wildcard-permission'', WILDCARD_PERMISSION, SingleActionPattern ''*'')"

definition wildcardIamRule :: Rule where
  "wildcardIamRule = (''wildcard-iam'', WILDCARD_IAM, SingleActionPattern ''iam:*'')"

definition wildcardResourceRule :: Rule where
  "wildcardResourceRule = (''wildcard-resource'', WILDCARD_RESOURCE, ResourceWildcard)"

text \<open>The rows of the table from create-policy-version on.\<close>

definition actionRules :: "Rule list" where
  "actionRules =
    [(''create-policy-version'', CREATE_POLICY_VERSION, SingleActionExact ''iam:CreatePolicyVersion''),
     (''policy-version-manipulation'', POLICY_VERSION_MANIPULATION,
        ActionAnyOf [''iam:CreatePolicyVersion'', ''iam:SetDefaultPolicyVersion'']),
     (''passrole-any'', PASSROLE_ANY, SingleActionExact ''iam:PassRole''),
     (''passrole-ec2'', PASSROLE_EC2, ActionCoOccurrence [''iam:PassRole'', ''ec2:RunInstances'']),
     (''access-key-creation'', ACCESS_KEY_CREATION, SingleActionExact ''iam:CreateAccessKey''),
     (''login-profile-manipulation'', LOGIN_PROFILE_MANIPULATION,
        ActionAnyOf [''iam:CreateLoginProfile'', ''iam:UpdateLoginProfile'']),
     (''policy-attachment'', POLICY_ATTACHMENT,
        ActionAnyOf [''iam:AttachUserPolicy'', ''iam:AttachGroupPolicy'', ''iam:AttachRolePolicy'']),
     (''inline-policy-manipulation'', INLINE_POLICY_MANIPULATION,
        ActionAnyOf [''iam:PutUserPolicy'', ''iam:PutGroupPolicy'', ''iam:PutRolePolicy'']),
     (''group-membership'', GROUP_MEMBERSHIP, SingleActionExact ''iam:AddUserToGroup''),
     (''assume-role-policy-update'', ASSUME_ROLE_POLICY_UPDATE,
        SingleActionExact ''iam:UpdateAssumeRolePolicy''),
     (''lambda-privilege-escalation'', LAMBDA_PRIVILEGE_ESCALATION,
        ActionCoOccurrence [''iam:PassRole'', ''lambda:CreateFunction'', ''lambda:InvokeFunction'']),
     (''lambda-event-source-manipulation'', LAMBDA_EVENT_SOURCE_MANIPULATION,
        ActionCoOccurrence [''iam:PassRole'', ''lambda:CreateFunction'', ''lambda:CreateEventSourceMapping'']),
     (''lambda-code-update'', LAMBDA_CODE_UPDATE, SingleActionExact ''lambda:UpdateFunctionCode''),
     (''glue-privilege-escalation'', GLUE_PRIVILEGE_ESCALATION,
        ActionCoOccurrence [''iam:PassRole'', ''glue:CreateDevEndpoint'', ''glue:GetDevEndpoint'']),
     (''glue-endpoint-manipulation'', GLUE_ENDPOINT_MANIPULATION,
        ActionCoOccurrence [''glue:UpdateDevEndpoint'', ''glue:GetDevEndpoint'']),
     (''cloudformation-privilege-escalation'', CLOUDFORMATION_PRIVILEGE_ESCALATION,
        ActionCoOccurrence [''iam:PassRole'', ''cloudformation:CreateStack'', ''cloudformation:DescribeStacks'']),
     (''datapipeline-privilege-escalation'', DATAPIPELINE_PRIVILEGE_ESCALATION,
        ActionCoOccurrence [''iam:PassRole'', ''datapipeline:CreatePipeline'',
          ''datapipeline:PutPipelineDefinition'', ''datapipeline:ActivatePipeline''])]"

text \<open>The catalogue in the order of the table of section 4.1.\<close>

definition specCatalog :: "Rule list" where
  "specCatalog = [wildcardPermissionRule, wildcardIamRule, wildcardResourceRule] @ actionRules"

text \<open>The same rules in the order in which the callback makes its checks.\<close>

definition callbackCatalog :: "Rule list" where
  "callbackCatalog = [wildcardResourceRule, wildcardPermissionRule, wildcardIamRule] @ actionRules"

text \<open>
  A field of a statement as the specification reads it: absent on anything that has no
  such field.
\<close>

definition field :: "json \<Rightarrow> string \<Rightarrow> jsval" where
  "field v k = (case getProp (Some v) k of Inl e \<Rightarrow> None | Inr x \<Rightarrow> x)"

definition isAllow :: "json \<Rightarrow> bool" where
  "isAllow statement = (field statement ''Effect'' = Some (JStr ''Allow''))"

text \<open>
  The version the specification calls the default one: its identifier equals the policy's
  default-version identifier.
\<close>

definition isDefaultVersion :: "json \<Rightarrow> json \<Rightarrow> bool" where
  "isDefaultVersion policy v = strictEq (field v ''VersionId'') (field policy ''DefaultVersionId'')"

text \<open>
  The matches of one statement in the order of a catalogue: nothing unless the effect is
  Allow, else one finding with the statement's index for every rule that fires.
\<close>

definition catalogMatches :: "Rule list \<Rightarrow> nat \<Rightarrow> json \<Rightarrow> SecurityFlag list" where
  "catalogMatches catalog i statement =
     (if isAllow statement
      then map (\<lambda>(k, p, m). mkFlag k p i)
             (filter (\<lambda>(k, p, m). ruleFires m (normalizeActions (field statement ''Action''))
                                      (normalizeResources (field statement ''Resource'')))
                catalog)
      else [])"

text \<open>The concatenation over the statements, in statement order.\<close>

definition catalogFindings :: "Rule list \<Rightarrow> json list \<Rightarrow> SecurityFlag list" where
  "catalogFindings catalog statements =
     concat (map (\<lambda>(i, statement). catalogMatches catalog i statement) (enumerate 0 statements))"

section \<open>Sample policies\<close>

text \<open>The keys of the findings of a result.\<close>

definition flagIds :: "error + PolicyAnalysisResult \<Rightarrow> error + string list" where
  "flagIds res = map_sum id (\<lambda>r. map id_flag (flags r)) res"

text \<open>A managed policy with one version \<open>v1\<close>, the default, whose document has the given Statement.\<close>

definition samplePolicy :: "string \<Rightarrow> json \<Rightarrow> json" where
  "samplePolicy name st =
     JObj [(''PolicyName'', JStr name), (''PolicyId'', JStr (''ID-'' @ name)),
           (''DefaultVersionId'', JStr ''v1''),
           (''PolicyVersionList'',
              JArr [JObj [(''VersionId'', JStr ''v1''), (''IsDefaultVersion'', JBool True),
                          (''Document'', JObj [(''Version'', JStr ''2012-10-17''), (''Statement'', st)])]])]"

definition passRoleStatement :: json where
  "passRoleStatement =
     JObj [(''Effect'', JStr ''Allow''),
           (''Action'', JArr [JStr ''iam:PassRole'', JStr ''ec2:RunInstances'']),
           (''Resource'', JStr ''*'')]"

definition iamWildcardStatement :: json where
  "iamWildcardStatement = JObj [(''Effect'', JStr ''Allow''), (''Action'', JStr ''iam:*'')]"

definition groupStatement :: json where
  "groupStatement = JObj [(''Effect'', JStr ''Allow''), (''Action'', JStr ''iam:AddUserToGroup'')]"

definition readStatement :: json where
  "readStatement =
     JObj [(''Effect'', JStr ''Allow''), (''Action'', JStr ''s3:GetObject''),
           (''Resource'', JStr ''arn:aws:s3:::my-bucket/*'')]"

definition denyAllStatement :: json where
  "denyAllStatement = JObj [(''Effect'', JStr ''Deny''), (''Action'', JStr ''*''), (''Resource'', JStr ''*'')]"

definition allowAllStatement :: json where
  "allowAllStatement = JObj [(''Effect'', JStr ''Allow''), (''Action'', JStr ''*''), (''Resource'', JStr ''*'')]"

definition passRolePolicy :: json where
  "passRolePolicy = samplePolicy ''escalate'' (JArr [passRoleStatement])"

definition passRoleResult :: PolicyAnalysisResult where
  "passRoleResult =
     \<lparr>policyId = Some (JStr ''ID-escalate''), policyName = Some (JStr ''escalate''),
      flags = [mkFlag ''wildcard-resource'' WILDCARD_RESOURCE 0,
               mkFlag ''passrole-any'' PASSROLE_ANY 0,
               mkFlag ''passrole-ec2'' PASSROLE_EC2 0],
      isHighRisk = True\<rparr>"

definition groupPolicy :: json where
  "groupPolicy = samplePolicy ''groups'' (JArr [groupStatement])"

definition groupResult :: PolicyAnalysisResult where
  "groupResult =
     \<lparr>policyId = Some (JStr ''ID-groups''), policyName = Some (JStr ''groups''),
      flags = [mkFlag ''group-membership'' GROUP_MEMBERSHIP 0],
      isHighRisk = False\<rparr>"

definition readPolicy :: json where
  "readPolicy = samplePolicy ''reader'' (JArr [readStatement])"

definition readResult :: PolicyAnalysisResult where
  "readResult =
     \<lparr>policyId = Some (JStr ''ID-reader''), policyName = Some (JStr ''reader''),
      flags = [], isHighRisk = False\<rparr>"

definition accessKeyStatement :: json where
  "accessKeyStatement = JObj [(''Effect'', JStr ''Allow''), (''Action'', JStr ''iam:CreateAccessKey'')]"

definition denyThenAllowPolicy :: json where
  "denyThenAllowPolicy = samplePolicy ''mixed'' (JArr [denyAllStatement, accessKeyStatement])"

definition denyThenAllowResult :: PolicyAnalysisResult where
  "denyThenAllowResult =
     \<lparr>policyId = Some (JStr ''ID-mixed''), policyName = Some (JStr ''mixed''),
      flags = [mkFlag ''access-key-creation'' ACCESS_KEY_CREATION 1],
      isHighRisk = True\<rparr>"

definition bareIamPolicy :: json where
  "bareIamPolicy = samplePolicy ''iam-admin'' iamWildcardStatement"

definition allowAllPolicy :: json where
  "allowAllPolicy = samplePolicy ''admin'' (JArr [allowAllStatement])"

text \<open>A policy whose default version \<open>v2\<close> is not in its version list.\<close>

definition noDefaultPolicy :: json where
  "noDefaultPolicy =
     JObj [(''PolicyName'', JStr ''stale''), (''PolicyId'', JStr ''ID-stale''),
           (''DefaultVersionId'', JStr ''v2''),
           (''PolicyVersionList'',
              JArr [JObj [(''VersionId'', JStr ''v1''),
                          (''Document'', JObj [(''Statement'', JArr [passRoleStatement])])]])]"

text \<open>A policy whose default version has no document.\<close>

definition noDocumentPolicy :: json where
  "noDocumentPolicy =
     JObj [(''PolicyName'', JStr ''bare''), (''PolicyId'', JStr ''ID-bare''),
           (''DefaultVersionId'', JStr ''v1''),
           (''PolicyVersionList'', JArr [JObj [(''VersionId'', JStr ''v1'')]])]"

definition allowAllResult :: PolicyAnalysisResult where
  "allowAllResult =
     \<lparr>policyId = Some (JStr ''ID-admin''), policyName = Some (JStr ''admin''),
      flags = [mkFlag ''wildcard-resource'' WILDCARD_RESOURCE 0,
               mkFlag ''wildcard-permission'' WILDCARD_PERMISSION 0],
      isHighRisk = True\<rparr>"

text \<open>Inputs outside the shape of \<^verbatim>\<open>IAMPolicy\<close>.\<close>

definition missingVersionListPolicy :: json where
  "missingVersionListPolicy = JObj [(''PolicyName'', JStr ''x''), (''PolicyId'', JStr ''ID-x'')]"

definition stringVersionListPolicy :: json where
  "stringVersionListPolicy =
     JObj [(''PolicyName'', JStr ''x''), (''PolicyId'', JStr ''ID-x''),
           (''DefaultVersionId'', JStr ''v1''), (''PolicyVersionList'', JStr ''v1'')]"

definition nullStatementPolicy :: json where
  "nullStatementPolicy = samplePolicy ''broken'' (JArr [JNull])"

definition oddStatements :: "json list" where
  "oddStatements =
     [JStr ''Allow'', JNum 5, JArr [], JObj [(''Action'', JStr ''*''), (''Resource'', JStr ''*'')],
      JObj [(''Effect'', JStr ''allow''), (''Action'', JStr ''*'')]]"

definition oddPolicy :: json where
  "oddPolicy = samplePolicy ''odd'' (JArr oddStatements)"

definition passRoleOnlyStatement :: json where
  "passRoleOnlyStatement =
     JObj [(''Effect'', JStr ''Allow''), (''Action'', JArr [JStr ''iam:PassRole'']),
           (''Resource'', JStr ''*'')]"

definition passRoleOnlyPolicy :: json where
  "passRoleOnlyPolicy = samplePolicy ''escalate'' (JArr [passRoleOnlyStatement])"

definition passRoleOnlyResult :: PolicyAnalysisResult where
  "passRoleOnlyResult =
     \<lparr>policyId = Some (JStr ''ID-escalate''), policyName = Some (JStr ''escalate''),
      flags = [mkFlag ''wildcard-resource'' WILDCARD_RESOURCE 0,
               mkFlag ''passrole-any'' PASSROLE_ANY 0],
      isHighRisk = True\<rparr>"

definition grownGroupPolicy :: json where
  "grownGroupPolicy = samplePolicy ''groups'' (JArr [groupStatement, accessKeyStatement])"

text \<open>
  Three policies: one with HIGH findings, one with a single MEDIUM finding, one without
  findings.
\<close>

definition threePolicies :: policies where
  "threePolicies =
     [(''ID-escalate'', passRolePolicy), (''ID-groups'', groupPolicy), (''ID-reader'', readPolicy)]"

section \<open>The callback as an evaluation of the catalogue\<close>

lemma bindE_Inl: "bindE (Inl e) f = Inl e"
  by (simp add: bindE_def)

lemma bindE_Inr: "bindE (Inr x) f = f x"
  by (simp add: bindE_def)

lemma bindE_eq_Inr: "bindE m f = Inr y \<longleftrightarrow> (\<exists>x. m = Inr x \<and> f x = Inr y)"
  by (cases m) (simp_all add: bindE_def)

lemma strictEq_JStr: "strictEq e (Some (JStr s)) \<longleftrightarrow> e = Some (JStr s)"
proof (cases e)
  case None
  then show ?thesis by simp
next
  case (Some v)
  then show ?thesis by (cases v) auto
qed

lemma getProp_field: "v \<noteq> JNull \<Longrightarrow> getProp (Some v) k = Inr (field v k)"
  by (cases v) (simp_all add: field_def)

lemma pushIf_append: "pushIf c f fs = fs @ (if c then [f] else [])"
  by (simp add: pushIf_def)

lemma some_includes2: "list_ex (\<lambda>a. a \<in> set [p, q]) acts \<longleftrightarrow> p \<in> set acts \<or> q \<in> set acts"
  by (auto simp: list_ex_iff)

lemma some_includes3:
  "list_ex (\<lambda>a. a \<in> set [p, q, r]) acts \<longleftrightarrow> p \<in> set acts \<or> q \<in> set acts \<or> r \<in> set acts"
  by (auto simp: list_ex_iff)

lemma anyOf2: "ruleFires (ActionAnyOf [p, q]) acts res \<longleftrightarrow> p \<in> set acts \<or> q \<in> set acts"
  by simp

lemma anyOf3:
  "ruleFires (ActionAnyOf [p, q, r]) acts res \<longleftrightarrow> p \<in> set acts \<or> q \<in> set acts \<or> r \<in> set acts"
  by simp

lemma list_ex_eq_const: "list_ex (\<lambda>a. a = c) xs \<longleftrightarrow> c \<in> set xs"
  by (auto simp: list_ex_iff)

lemma wildcard_resource_test:
  "list_ex (\<lambda>r. isString r \<and> strictEq r (Some (JStr ''*''))) resources \<longleftrightarrow> Some (JStr ''*'') \<in> set resources"
  by (auto simp: list_ex_iff strictEq_JStr)

lemma catalog_findings_unfold:
  "map (\<lambda>(k, p, m). mkFlag k p i) (filter (\<lambda>(k, p, m). ruleFires m a r) ((k0, p0, m0) # rest)) =
   (if ruleFires m0 a r then [mkFlag k0 p0 i] else []) @
   map (\<lambda>(k, p, m). mkFlag k p i) (filter (\<lambda>(k, p, m). ruleFires m a r) rest)"
  by simp

lemma coOccurrence2: "ruleFires (ActionCoOccurrence [a, b]) acts r \<longleftrightarrow> a \<in> set acts \<and> b \<in> set acts"
  by simp

lemma coOccurrence3:
  "ruleFires (ActionCoOccurrence [a, b, c]) acts r \<longleftrightarrow> a \<in> set acts \<and> b \<in> set acts \<and> c \<in> set acts"
  by simp

lemma coOccurrence4:
  "ruleFires (ActionCoOccurrence [a, b, c, d]) acts r \<longleftrightarrow>
   a \<in> set acts \<and> b \<in> set acts \<and> c \<in> set acts \<and> d \<in> set acts"
  by simp

lemma statementChecks_eq:
  "statementChecks a r i fs =
   fs @ map (\<lambda>(k, p, m). mkFlag k p i) (filter (\<lambda>(k, p, m). ruleFires m a r) callbackCatalog)"
  unfolding statementChecks_def Let_def callbackCatalog_def actionRules_def
    wildcardResourceRule_def wildcardPermissionRule_def wildcardIamRule_def append_Cons append_Nil
    catalog_findings_unfold pushIf_append
    WILDCARD_PERMISSION_pattern_test_def WILDCARD_IAM_pattern_test_def list_ex_eq_const
    wildcard_resource_test
    CREATE_POLICY_VERSION_pattern_def PASSROLE_ANY_pattern_def
    POLICY_VERSION_MANIPULATION_patterns_def LOGIN_PROFILE_MANIPULATION_patterns_def
    POLICY_ATTACHMENT_patterns_def INLINE_POLICY_MANIPULATION_patterns_def
    some_includes2 some_includes3 anyOf2 anyOf3
    coOccurrence2 coOccurrence3 coOccurrence4 ruleFires.simps(1-3)
  by (simp only: append_assoc filter.simps list.map append_Nil2)

lemma analyzeStatement_null: "analyzeStatement JNull i fs = Inl TypeError"
  by (simp add: analyzeStatement_def bindE_Inl)

lemma analyzeStatement_eq:
  assumes "statement \<noteq> JNull"
  shows "analyzeStatement statement i fs = Inr (fs @ catalogMatches callbackCatalog i statement)"
  using assms
  by (simp add: analyzeStatement_def getProp_field bindE_Inr strictEq_JStr catalogMatches_def
      isAllow_def statementChecks_eq)

lemma forEachStatement_null:
  "JNull \<in> set statements \<Longrightarrow> forEachStatement statements i fs = Inl TypeError"
proof (induction statements arbitrary: i fs)
  case Nil
  then show ?case by simp
next
  case (Cons s rest)
  show ?case
  proof (cases "s = JNull")
    case True
    then show ?thesis by (simp add: analyzeStatement_null)
  next
    case False
    with Cons show ?thesis by (simp add: analyzeStatement_eq)
  qed
qed

lemma forEachStatement_eq:
  "JNull \<notin> set statements \<Longrightarrow>
   forEachStatement statements i fs =
   Inr (fs @ concat (map (\<lambda>(j, s). catalogMatches callbackCatalog j s) (enumerate i statements)))"
proof (induction statements arbitrary: i fs)
  case Nil
  then show ?case by simp
next
  case (Cons s rest)
  from Cons.prems have "s \<noteq> JNull" and "JNull \<notin> set rest" by auto
  then show ?case by (simp add: analyzeStatement_eq Cons.IH)
qed

lemma defaultStatements_not_null: "defaultStatements policy = Inr found \<Longrightarrow> policy \<noteq> JNull"
  by (auto simp: defaultStatements_def defaultDocument_def findDefaultVersion_def bindE_Inl)

lemma analyzePolicy_no_document:
  assumes "defaultStatements policy = Inr None"
  shows "analyzePolicy policy =
         Inr \<lparr>policyId = field policy ''PolicyId'', policyName = field policy ''PolicyName'',
              flags = [], isHighRisk = False\<rparr>"
  using assms defaultStatements_not_null [OF assms]
  by (simp add: analyzePolicy_def bindE_Inr getProp_field)

lemma analyzePolicy_null_statement:
  assumes "defaultStatements policy = Inr (Some statements)" and "JNull \<in> set statements"
  shows "analyzePolicy policy = Inl TypeError"
  using assms by (simp add: analyzePolicy_def bindE_Inr bindE_Inl forEachStatement_null)

lemma analyzePolicy_statements:
  assumes "defaultStatements policy = Inr (Some statements)" and "JNull \<notin> set statements"
  shows "analyzePolicy policy =
         Inr \<lparr>policyId = field policy ''PolicyId'', policyName = field policy ''PolicyName'',
              flags = catalogFindings callbackCatalog statements,
              isHighRisk = list_ex (\<lambda>flag. severity flag = HIGH)
                             (catalogFindings callbackCatalog statements)\<rparr>"
  using assms defaultStatements_not_null [OF assms(1)]
  by (simp add: analyzePolicy_def bindE_Inr getProp_field forEachStatement_eq catalogFindings_def)

lemma analyzePolicy_throws:
  "defaultStatements policy = Inl e \<Longrightarrow> analyzePolicy policy = Inl e"
  by (simp add: analyzePolicy_def bindE_Inl)

section \<open>The sample policies, analysed\<close>

lemma samplePolicy_statements:
  "defaultStatements (samplePolicy name st) = Inr (Some (normalizeStatements (Some st)))"
  by (simp add: samplePolicy_def defaultStatements_def defaultDocument_def
      findDefaultVersion_def bindE_def)

lemma samplePolicy_fields:
  "field (samplePolicy name st) ''PolicyId'' = Some (JStr (''ID-'' @ name))"
  "field (samplePolicy name st) ''PolicyName'' = Some (JStr name)"
  by (simp_all add: samplePolicy_def field_def)

lemmas pattern_defs =
  WILDCARD_PERMISSION_def WILDCARD_IAM_def WILDCARD_RESOURCE_def CREATE_POLICY_VERSION_def
  POLICY_VERSION_MANIPULATION_def PASSROLE_ANY_def PASSROLE_EC2_def ACCESS_KEY_CREATION_def
  LOGIN_PROFILE_MANIPULATION_def POLICY_ATTACHMENT_def INLINE_POLICY_MANIPULATION_def
  GROUP_MEMBERSHIP_def ASSUME_ROLE_POLICY_UPDATE_def LAMBDA_PRIVILEGE_ESCALATION_def
  LAMBDA_EVENT_SOURCE_MANIPULATION_def LAMBDA_CODE_UPDATE_def GLUE_PRIVILEGE_ESCALATION_def
  GLUE_ENDPOINT_MANIPULATION_def CLOUDFORMATION_PRIVILEGE_ESCALATION_def
  DATAPIPELINE_PRIVILEGE_ESCALATION_def

lemmas catalog_defs =
  callbackCatalog_def specCatalog_def actionRules_def wildcardResourceRule_def
  wildcardPermissionRule_def wildcardIamRule_def

lemma catalogMatches_passRole:
  "catalogMatches callbackCatalog i passRoleStatement =
   [mkFlag ''wildcard-resource'' WILDCARD_RESOURCE i, mkFlag ''passrole-any'' PASSROLE_ANY i,
    mkFlag ''passrole-ec2'' PASSROLE_EC2 i]"
  by (simp add: catalogMatches_def isAllow_def field_def passRoleStatement_def
      normalizeActions_def normalizeResources_def catalog_defs)

lemma catalogMatches_group:
  "catalogMatches callbackCatalog i groupStatement = [mkFlag ''group-membership'' GROUP_MEMBERSHIP i]"
  by (simp add: catalogMatches_def isAllow_def field_def groupStatement_def
      normalizeActions_def normalizeResources_def catalog_defs)

lemma catalogMatches_read: "catalogMatches callbackCatalog i readStatement = []"
  by (simp add: catalogMatches_def isAllow_def field_def readStatement_def
      normalizeActions_def normalizeResources_def catalog_defs)

lemma severity_mkFlag: "severity (mkFlag k p i) = pat_severity p"
  by (simp add: mkFlag_def)

lemma pattern_severities:
  "pat_severity WILDCARD_PERMISSION = HIGH"
  "pat_severity WILDCARD_IAM = HIGH"
  "pat_severity WILDCARD_RESOURCE = HIGH"
  "pat_severity CREATE_POLICY_VERSION = HIGH"
  "pat_severity POLICY_VERSION_MANIPULATION = HIGH"
  "pat_severity PASSROLE_ANY = HIGH"
  "pat_severity PASSROLE_EC2 = HIGH"
  "pat_severity ACCESS_KEY_CREATION = HIGH"
  "pat_severity LOGIN_PROFILE_MANIPULATION = HIGH"
  "pat_severity POLICY_ATTACHMENT = HIGH"
  "pat_severity INLINE_POLICY_MANIPULATION = HIGH"
  "pat_severity GROUP_MEMBERSHIP = MEDIUM"
  "pat_severity ASSUME_ROLE_POLICY_UPDATE = HIGH"
  "pat_severity LAMBDA_PRIVILEGE_ESCALATION = HIGH"
  "pat_severity LAMBDA_EVENT_SOURCE_MANIPULATION = HIGH"
  "pat_severity LAMBDA_CODE_UPDATE = MEDIUM"
  "pat_severity GLUE_PRIVILEGE_ESCALATION = HIGH"
  "pat_severity GLUE_ENDPOINT_MANIPULATION = MEDIUM"
  "pat_severity CLOUDFORMATION_PRIVILEGE_ESCALATION = HIGH"
  "pat_severity DATAPIPELINE_PRIVILEGE_ESCALATION = HIGH"
  by (simp_all add: pattern_defs)

lemma passRoleStatement_not_null: "passRoleStatement \<noteq> JNull"
  by (simp add: passRoleStatement_def)

lemma groupStatement_not_null: "groupStatement \<noteq> JNull"
  by (simp add: groupStatement_def)

lemma readStatement_not_null: "readStatement \<noteq> JNull"
  by (simp add: readStatement_def)

lemma analyzePolicy_passRole: "analyzePolicy passRolePolicy = Inr passRoleResult"
proof -
  have st: "defaultStatements passRolePolicy = Inr (Some [passRoleStatement])"
    by (simp add: passRolePolicy_def samplePolicy_statements normalizeStatements_def)
  have nn: "JNull \<notin> set [passRoleStatement]"
    using passRoleStatement_not_null by simp
  show ?thesis
    unfolding analyzePolicy_statements [OF st nn]
    by (simp add: catalogFindings_def catalogMatches_passRole passRoleResult_def
        passRolePolicy_def samplePolicy_fields severity_mkFlag pattern_severities)
qed

lemma analyzePolicy_group: "analyzePolicy groupPolicy = Inr groupResult"
proof -
  have st: "defaultStatements groupPolicy = Inr (Some [groupStatement])"
    by (simp add: groupPolicy_def samplePolicy_statements normalizeStatements_def)
  have nn: "JNull \<notin> set [groupStatement]"
    using groupStatement_not_null by simp
  show ?thesis
    unfolding analyzePolicy_statements [OF st nn]
    by (simp add: catalogFindings_def catalogMatches_group groupResult_def
        groupPolicy_def samplePolicy_fields severity_mkFlag pattern_severities)
qed

lemma analyzePolicy_read: "analyzePolicy readPolicy = Inr readResult"
proof -
  have st: "defaultStatements readPolicy = Inr (Some [readStatement])"
    by (simp add: readPolicy_def samplePolicy_statements normalizeStatements_def)
  have nn: "JNull \<notin> set [readStatement]"
    using readStatement_not_null by simp
  show ?thesis
    unfolding analyzePolicy_statements [OF st nn]
    by (simp add: catalogFindings_def catalogMatches_read readResult_def
        readPolicy_def samplePolicy_fields)
qed

section \<open>The high-risk verdict\<close>

lemma analyzePolicy_isHighRisk:
  assumes "analyzePolicy policy = Inr r"
  shows "isHighRisk r = list_ex (\<lambda>flag. severity flag = HIGH) (flags r)"
proof (cases "defaultStatements policy")
  case (Inl e)
  with assms show ?thesis by (simp add: analyzePolicy_throws)
next
  case (Inr found)
  show ?thesis
  proof (cases found)
    case None
    with Inr assms show ?thesis by (auto simp: analyzePolicy_no_document)
  next
    case (Some statements)
    show ?thesis
    proof (cases "JNull \<in> set statements")
      case True
      with Inr Some assms show ?thesis by (simp add: analyzePolicy_null_statement)
    next
      case False
      with Inr Some assms show ?thesis by (auto simp: analyzePolicy_statements)
    qed
  qed
qed

text \<open>
  C5: whenever \<^verbatim>\<open>analyzePolicy\<close> returns a result, its \<^verbatim>\<open>isHighRisk\<close> field is true exactly
  when some finding of the returned list has severity HIGH; in particular a result whose
  findings are all MEDIUM or LOW has \<^verbatim>\<open>isHighRisk = false\<close>.
\<close>

theorem C5_isHighRisk_iff_high_finding:
  assumes "analyzePolicy policy = Inr r"
  shows "(isHighRisk r \<longleftrightarrow> (\<exists>f \<in> set (flags r). severity f = HIGH)) \<and>
         ((\<forall>f \<in> set (flags r). severity f = MEDIUM \<or> severity f = LOW) \<longrightarrow> \<not> isHighRisk r)"
  using analyzePolicy_isHighRisk [OF assms] by (auto simp: list_ex_iff)

theorem C5_witness:
  "analyzePolicy groupPolicy = Inr groupResult \<and>
   map severity (flags groupResult) = [MEDIUM] \<and>
   \<not> isHighRisk groupResult \<and>
   (isHighRisk groupResult \<longleftrightarrow> (\<exists>f \<in> set (flags groupResult). severity f = HIGH))"
  using C5_isHighRisk_iff_high_finding [OF analyzePolicy_group] analyzePolicy_group
  by (simp add: groupResult_def severity_mkFlag pattern_severities)

section \<open>The default version and its document\<close>

lemma array_find_eq:
  assumes "policy \<noteq> JNull" and "JNull \<notin> set versions"
  shows "array_find (\<lambda>v.
           bindE (getProp (Some v) ''VersionId'') (\<lambda>versionId.
           bindE (getProp (Some policy) ''DefaultVersionId'') (\<lambda>defaultVersionId.
             Inr (strictEq versionId defaultVersionId)))) versions =
         Inr (find (isDefaultVersion policy) versions)"
  using assms
proof (induction versions)
  case Nil
  then show ?case by simp
next
  case (Cons v vs)
  from Cons.prems have "v \<noteq> JNull" and "JNull \<notin> set vs" by auto
  with Cons.IH Cons.prems(1) show ?case
    by (simp add: getProp_field bindE_Inr isDefaultVersion_def)
qed

lemma findDefaultVersion_eq:
  assumes "getProp (Some policy) ''PolicyVersionList'' = Inr (Some (JArr versions))"
    and "JNull \<notin> set versions"
  shows "findDefaultVersion policy = Inr (find (isDefaultVersion policy) versions)"
proof -
  from assms(1) have "policy \<noteq> JNull" by auto
  then show ?thesis
    using assms by (simp add: findDefaultVersion_def bindE_Inr array_find_eq)
qed

lemma truthy_not_null: "truthy (Some v) \<Longrightarrow> v \<noteq> JNull"
  by auto

lemma defaultDocument_eq:
  assumes "findDefaultVersion policy = Inr dv"
  shows "defaultDocument policy =
         Inr (case dv of
                None \<Rightarrow> None
              | Some v \<Rightarrow> if truthy (Some v) \<and> truthy (field v ''Document'')
                          then field v ''Document'' else None)"
proof (cases dv)
  case None
  with assms show ?thesis by (simp add: defaultDocument_def bindE_Inr)
next
  case (Some v)
  show ?thesis
  proof (cases "truthy (Some v)")
    case True
    then have "v \<noteq> JNull" by (rule truthy_not_null)
    with assms Some True show ?thesis
      by (simp add: defaultDocument_def bindE_Inr getProp_field)
  next
    case False
    with assms Some show ?thesis by (simp add: defaultDocument_def bindE_Inr)
  qed
qed

lemma defaultStatements_eq:
  assumes "defaultDocument policy = Inr found"
  shows "defaultStatements policy =
         Inr (case found of
                None \<Rightarrow> None
              | Some document \<Rightarrow> Some (normalizeStatements (field document ''Statement'')))"
proof (cases found)
  case None
  with assms show ?thesis by (simp add: defaultStatements_def bindE_Inr)
next
  case (Some document)
  with assms have "truthy (Some document)"
    by (auto simp: defaultDocument_def bindE_eq_Inr split: if_splits)
  then have "document \<noteq> JNull" by (rule truthy_not_null)
  with assms Some show ?thesis
    by (simp add: defaultStatements_def bindE_Inr getProp_field)
qed

lemma defaultStatements_no_version:
  assumes "getProp (Some policy) ''PolicyVersionList'' = Inr (Some (JArr versions))"
    and "JNull \<notin> set versions"
    and "find (isDefaultVersion policy) versions = None"
  shows "defaultStatements policy = Inr None"
proof -
  have "findDefaultVersion policy = Inr None"
    using findDefaultVersion_eq [OF assms(1,2)] assms(3) by simp
  then have "defaultDocument policy = Inr None"
    by (simp add: defaultDocument_eq)
  then show ?thesis by (simp add: defaultStatements_eq)
qed

lemma defaultStatements_no_document:
  assumes "getProp (Some policy) ''PolicyVersionList'' = Inr (Some (JArr versions))"
    and "JNull \<notin> set versions"
    and "find (isDefaultVersion policy) versions = Some v"
    and "\<not> truthy (field v ''Document'')"
  shows "defaultStatements policy = Inr None"
proof -
  have "findDefaultVersion policy = Inr (Some v)"
    using findDefaultVersion_eq [OF assms(1,2)] assms(3) by simp
  then have "defaultDocument policy = Inr None"
    using assms(4) by (simp add: defaultDocument_eq)
  then show ?thesis by (simp add: defaultStatements_eq)
qed

text \<open>
  C3: for a policy whose version list (an array of versions, none of them \<^verbatim>\<open>null\<close>)
  contains no version whose identifier equals the policy's default-version identifier, or
  whose first such version has no document, \<^verbatim>\<open>analyzePolicy\<close> returns normally, with an
  empty finding list and \<^verbatim>\<open>isHighRisk = false\<close>.
\<close>

theorem C3_missing_default_is_risk_free:
  assumes "getProp (Some policy) ''PolicyVersionList'' = Inr (Some (JArr versions))"
    and "JNull \<notin> set versions"
    and "(\<forall>v \<in> set versions. \<not> isDefaultVersion policy v) \<or>
         (\<exists>v. find (isDefaultVersion policy) versions = Some v \<and> \<not> truthy (field v ''Document''))"
  shows "analyzePolicy policy =
         Inr \<lparr>policyId = field policy ''PolicyId'', policyName = field policy ''PolicyName'',
              flags = [], isHighRisk = False\<rparr>"
proof -
  from assms(3) have "defaultStatements policy = Inr None"
  proof
    assume "\<forall>v \<in> set versions. \<not> isDefaultVersion policy v"
    then have "find (isDefaultVersion policy) versions = None"
      by (simp add: find_None_iff)
    then show ?thesis by (rule defaultStatements_no_version [OF assms(1,2)])
  next
    assume "\<exists>v. find (isDefaultVersion policy) versions = Some v \<and> \<not> truthy (field v ''Document'')"
    then obtain v where "find (isDefaultVersion policy) versions = Some v"
      and "\<not> truthy (field v ''Document'')" by blast
    then show ?thesis by (rule defaultStatements_no_document [OF assms(1,2)])
  qed
  then show ?thesis by (rule analyzePolicy_no_document)
qed

lemma noDefaultPolicy_versions:
  "getProp (Some noDefaultPolicy) ''PolicyVersionList'' =
   Inr (Some (JArr [JObj [(''VersionId'', JStr ''v1''),
                          (''Document'', JObj [(''Statement'', JArr [passRoleStatement])])]]))"
  by (simp add: noDefaultPolicy_def)

lemma noDocumentPolicy_versions:
  "getProp (Some noDocumentPolicy) ''PolicyVersionList'' =
   Inr (Some (JArr [JObj [(''VersionId'', JStr ''v1'')]]))"
  by (simp add: noDocumentPolicy_def)

theorem C3_witness:
  "analyzePolicy noDefaultPolicy =
     Inr \<lparr>policyId = Some (JStr ''ID-stale''), policyName = Some (JStr ''stale''),
          flags = [], isHighRisk = False\<rparr> \<and>
   analyzePolicy noDocumentPolicy =
     Inr \<lparr>policyId = Some (JStr ''ID-bare''), policyName = Some (JStr ''bare''),
          flags = [], isHighRisk = False\<rparr>"
proof
  have "\<forall>v \<in> set [JObj [(''VersionId'', JStr ''v1''),
                     (''Document'', JObj [(''Statement'', JArr [passRoleStatement])])]].
          \<not> isDefaultVersion noDefaultPolicy v"
    by (simp add: isDefaultVersion_def field_def noDefaultPolicy_def)
  then show "analyzePolicy noDefaultPolicy =
     Inr \<lparr>policyId = Some (JStr ''ID-stale''), policyName = Some (JStr ''stale''),
          flags = [], isHighRisk = False\<rparr>"
    using C3_missing_default_is_risk_free [OF noDefaultPolicy_versions]
    by (simp add: field_def noDefaultPolicy_def)
next
  have "find (isDefaultVersion noDocumentPolicy) [JObj [(''VersionId'', JStr ''v1'')]] =
          Some (JObj [(''VersionId'', JStr ''v1'')]) \<and>
        \<not> truthy (field (JObj [(''VersionId'', JStr ''v1'')]) ''Document'')"
    by (simp add: isDefaultVersion_def field_def noDocumentPolicy_def)
  then show "analyzePolicy noDocumentPolicy =
     Inr \<lparr>policyId = Some (JStr ''ID-bare''), policyName = Some (JStr ''bare''),
          flags = [], isHighRisk = False\<rparr>"
    using C3_missing_default_is_risk_free [OF noDocumentPolicy_versions]
    by (simp add: field_def noDocumentPolicy_def)
qed

section \<open>The scenarios of the specification\<close>

lemma field_Some_not_null: "field v k = Some x \<Longrightarrow> v \<noteq> JNull"
  by (auto simp: field_def)

text \<open>
  C6: a policy whose default document has exactly one statement, with Effect "Allow",
  Action ["iam:PassRole", "ec2:RunInstances"] and Resource "*", is analysed to exactly the
  three findings with the keys wildcard-resource, passrole-any and passrole-ec2, in this
  order, each of severity HIGH, with the texts of its entry of the pattern table and with
  the affected-statement list [0], and \<^verbatim>\<open>isHighRisk = true\<close>.
\<close>

theorem C6_passrole_ec2_scenario:
  assumes "defaultStatements policy = Inr (Some [statement])"
    and "field statement ''Effect'' = Some (JStr ''Allow'')"
    and "field statement ''Action'' = Some (JArr [JStr ''iam:PassRole'', JStr ''ec2:RunInstances''])"
    and "field statement ''Resource'' = Some (JStr ''*'')"
  shows "analyzePolicy policy =
         Inr \<lparr>policyId = field policy ''PolicyId'', policyName = field policy ''PolicyName'',
              flags = [\<lparr>id_flag = ''wildcard-resource'', severity = HIGH,
                       title = pat_title WILDCARD_RESOURCE,
                       description = pat_description WILDCARD_RESOURCE,
                       recommendation = pat_recommendation WILDCARD_RESOURCE,
                       affectedStatements = [0]\<rparr>,
                     \<lparr>id_flag = ''passrole-any'', severity = HIGH,
                       title = pat_title PASSROLE_ANY,
                       description = pat_description PASSROLE_ANY,
                       recommendation = pat_recommendation PASSROLE_ANY,
                       affectedStatements = [0]\<rparr>,
                     \<lparr>id_flag = ''passrole-ec2'', severity = HIGH,
                       title = pat_title PASSROLE_EC2,
                       description = pat_description PASSROLE_EC2,
                       recommendation = pat_recommendation PASSROLE_EC2,
                       affectedStatements = [0]\<rparr>],
              isHighRisk = True\<rparr>"
proof -
  have nn: "JNull \<notin> set [statement]"
    using field_Some_not_null [OF assms(2)] by simp
  have m: "catalogMatches callbackCatalog 0 statement =
           [mkFlag ''wildcard-resource'' WILDCARD_RESOURCE 0,
            mkFlag ''passrole-any'' PASSROLE_ANY 0,
            mkFlag ''passrole-ec2'' PASSROLE_EC2 0]"
    by (simp add: catalogMatches_def isAllow_def assms(2,3,4)
        normalizeActions_def normalizeResources_def catalog_defs)
  show ?thesis
    unfolding analyzePolicy_statements [OF assms(1) nn]
    by (simp add: catalogFindings_def m mkFlag_def pattern_severities)
qed

lemma passRolePolicy_statements: "defaultStatements passRolePolicy = Inr (Some [passRoleStatement])"
  by (simp add: passRolePolicy_def samplePolicy_statements normalizeStatements_def)

lemma passRoleStatement_fields:
  "field passRoleStatement ''Effect'' = Some (JStr ''Allow'')"
  "field passRoleStatement ''Action'' = Some (JArr [JStr ''iam:PassRole'', JStr ''ec2:RunInstances''])"
  "field passRoleStatement ''Resource'' = Some (JStr ''*'')"
  by (simp_all add: passRoleStatement_def field_def)

lemma passRole_titles:
  "pat_title WILDCARD_RESOURCE = ''Wildcard Resource''"
  "pat_title PASSROLE_ANY = ''PassRole Permission Present''"
  "pat_title PASSROLE_EC2 = ''Privilege Escalation via EC2''"
  by (simp_all add: WILDCARD_RESOURCE_def PASSROLE_ANY_def PASSROLE_EC2_def)

theorem C6_witness:
  "analyzePolicy passRolePolicy =
     Inr \<lparr>policyId = Some (JStr ''ID-escalate''), policyName = Some (JStr ''escalate''),
          flags = [\<lparr>id_flag = ''wildcard-resource'', severity = HIGH,
                   title = ''Wildcard Resource'',
                   description = pat_description WILDCARD_RESOURCE,
                   recommendation = pat_recommendation WILDCARD_RESOURCE,
                   affectedStatements = [0]\<rparr>,
                 \<lparr>id_flag = ''passrole-any'', severity = HIGH,
                   title = ''PassRole Permission Present'',
                   description = pat_description PASSROLE_ANY,
                   recommendation = pat_recommendation PASSROLE_ANY,
                   affectedStatements = [0]\<rparr>,
                 \<lparr>id_flag = ''passrole-ec2'', severity = HIGH,
                   title = ''Privilege Escalation via EC2'',
                   description = pat_description PASSROLE_EC2,
                   recommendation = pat_recommendation PASSROLE_EC2,
                   affectedStatements = [0]\<rparr>],
          isHighRisk = True\<rparr> \<and>
   flagIds (analyzePolicy passRolePolicy) = Inr [''wildcard-resource'', ''passrole-any'', ''passrole-ec2''] \<and>
   map_sum id (\<lambda>r. map affectedStatements (flags r)) (analyzePolicy passRolePolicy) = Inr [[0], [0], [0]] \<and>
   map_sum id (\<lambda>r. map severity (flags r)) (analyzePolicy passRolePolicy) = Inr [HIGH, HIGH, HIGH] \<and>
   map_sum id isHighRisk (analyzePolicy passRolePolicy) = Inr True"
  using C6_passrole_ec2_scenario [OF passRolePolicy_statements passRoleStatement_fields]
  by (simp add: passRolePolicy_def samplePolicy_fields passRole_titles flagIds_def)

text \<open>
  C7: when the Statement of the default document is a single bare object with Effect
  "Allow" and Action "iam:*", the statements are normalised to the one-element sequence
  of that object and the result holds the wildcard-iam finding for statement index 0
  (after a wildcard-resource finding when the statement names the resource "*").
\<close>

theorem C7_bare_statement_is_normalized:
  assumes "defaultDocument policy = Inr (Some document)"
    and "field document ''Statement'' = Some (JObj kvs)"
    and "field (JObj kvs) ''Effect'' = Some (JStr ''Allow'')"
    and "field (JObj kvs) ''Action'' = Some (JStr ''iam:*'')"
  shows "defaultStatements policy = Inr (Some [JObj kvs]) \<and>
         (\<exists>r. analyzePolicy policy = Inr r \<and>
              flags r =
                (if Some (JStr ''*'') \<in> set (normalizeResources (field (JObj kvs) ''Resource''))
                 then [mkFlag ''wildcard-resource'' WILDCARD_RESOURCE 0] else []) @
                [mkFlag ''wildcard-iam'' WILDCARD_IAM 0] \<and>
              mkFlag ''wildcard-iam'' WILDCARD_IAM 0 \<in> set (flags r))"
proof -
  have st: "defaultStatements policy = Inr (Some [JObj kvs])"
    by (simp add: defaultStatements_eq [OF assms(1)] assms(2) normalizeStatements_def)
  have nn: "JNull \<notin> set [JObj kvs]" by simp
  have m: "catalogMatches callbackCatalog 0 (JObj kvs) =
           (if Some (JStr ''*'') \<in> set (normalizeResources (field (JObj kvs) ''Resource''))
            then [mkFlag ''wildcard-resource'' WILDCARD_RESOURCE 0] else []) @
           [mkFlag ''wildcard-iam'' WILDCARD_IAM 0]"
    by (simp add: catalogMatches_def isAllow_def assms(3,4) normalizeActions_def catalog_defs)
  show ?thesis
    unfolding analyzePolicy_statements [OF st nn]
    by (simp add: st catalogFindings_def m)
qed

lemma bareIamPolicy_document:
  "defaultDocument bareIamPolicy =
   Inr (Some (JObj [(''Version'', JStr ''2012-10-17''), (''Statement'', iamWildcardStatement)]))"
  by (simp add: bareIamPolicy_def samplePolicy_def defaultDocument_def findDefaultVersion_def bindE_def)

theorem C7_witness:
  "defaultStatements bareIamPolicy = Inr (Some [iamWildcardStatement]) \<and>
   flagIds (analyzePolicy bareIamPolicy) = Inr [''wildcard-iam''] \<and>
   map_sum id (\<lambda>r. map affectedStatements (flags r)) (analyzePolicy bareIamPolicy) = Inr [[0]]"
  using C7_bare_statement_is_normalized [OF bareIamPolicy_document,
      of "[(''Effect'', JStr ''Allow''), (''Action'', JStr ''iam:*'')]"]
  by (auto simp: iamWildcardStatement_def field_def normalizeResources_def flagIds_def mkFlag_def)

section \<open>Statements that are not Allow statements\<close>

lemma catalogMatches_not_allow: "\<not> isAllow s \<Longrightarrow> catalogMatches catalog i s = []"
  by (simp add: catalogMatches_def)

lemma catalogMatches_member:
  assumes "f \<in> set (catalogMatches catalog i s)"
  shows "affectedStatements f = [i] \<and> isAllow s"
  using assms by (auto simp: catalogMatches_def mkFlag_def split: if_splits)

lemma catalogFindings_member:
  assumes "f \<in> set (catalogFindings catalog statements)"
  shows "\<exists>j < length statements. f \<in> set (catalogMatches catalog j (statements ! j))"
proof -
  from assms obtain p where p: "p \<in> set (enumerate 0 statements)"
    and f: "f \<in> set (catalogMatches catalog (fst p) (snd p))"
    by (auto simp: catalogFindings_def)
  from p have "fst p < length statements" and "statements ! fst p = snd p"
    by (auto simp: in_set_enumerate_eq)
  with f show ?thesis by auto
qed

lemma analyzePolicy_flags:
  assumes "defaultStatements policy = Inr (Some statements)" and "analyzePolicy policy = Inr r"
  shows "JNull \<notin> set statements \<and> flags r = catalogFindings callbackCatalog statements"
proof (cases "JNull \<in> set statements")
  case True
  with assms show ?thesis by (simp add: analyzePolicy_null_statement)
next
  case False
  with assms show ?thesis by (auto simp: analyzePolicy_statements)
qed

text \<open>
  C4: a statement whose Effect is anything but the string "Allow" ("Deny", another value, or
  no Effect at all) leaves the finding list as it was, whatever its Action and Resource;
  and in the result of \<^verbatim>\<open>analyzePolicy\<close> no finding carries the index of such a statement.
\<close>

theorem C4_only_allow_statements_fire:
  "(getProp (Some statement) ''Effect'' = Inr effect \<and> effect \<noteq> Some (JStr ''Allow'') \<longrightarrow>
      analyzeStatement statement i fs = Inr fs) \<and>
   (defaultStatements policy = Inr (Some statements) \<and> analyzePolicy policy = Inr r \<and>
    k < length statements \<and> field (statements ! k) ''Effect'' \<noteq> Some (JStr ''Allow'') \<longrightarrow>
      (\<forall>f \<in> set (flags r). k \<notin> set (affectedStatements f)))"
proof (intro conjI impI)
  assume a: "getProp (Some statement) ''Effect'' = Inr effect \<and> effect \<noteq> Some (JStr ''Allow'')"
  then show "analyzeStatement statement i fs = Inr fs"
    by (simp add: analyzeStatement_def bindE_Inr strictEq_JStr)
next
  assume a: "defaultStatements policy = Inr (Some statements) \<and> analyzePolicy policy = Inr r \<and>
    k < length statements \<and> field (statements ! k) ''Effect'' \<noteq> Some (JStr ''Allow'')"
  then have fl: "flags r = catalogFindings callbackCatalog statements"
    using analyzePolicy_flags by blast
  show "\<forall>f \<in> set (flags r). k \<notin> set (affectedStatements f)"
  proof
    fix f assume "f \<in> set (flags r)"
    with fl obtain j where "j < length statements"
      and "f \<in> set (catalogMatches callbackCatalog j (statements ! j))"
      using catalogFindings_member by metis
    then have "affectedStatements f = [j]" and "isAllow (statements ! j)"
      using catalogMatches_member by blast+
    with a show "k \<notin> set (affectedStatements f)"
      by (auto simp: isAllow_def)
  qed
qed

lemma denyAllStatement_effect: "getProp (Some denyAllStatement) ''Effect'' = Inr (Some (JStr ''Deny''))"
  by (simp add: denyAllStatement_def)

lemma catalogMatches_accessKey:
  "catalogMatches callbackCatalog i accessKeyStatement =
   [mkFlag ''access-key-creation'' ACCESS_KEY_CREATION i]"
  by (simp add: catalogMatches_def isAllow_def field_def accessKeyStatement_def
      normalizeActions_def normalizeResources_def catalog_defs)

lemma catalogMatches_denyAll: "catalogMatches callbackCatalog i denyAllStatement = []"
  by (simp add: catalogMatches_def isAllow_def field_def denyAllStatement_def)

lemma denyThenAllowPolicy_statements:
  "defaultStatements denyThenAllowPolicy = Inr (Some [denyAllStatement, accessKeyStatement])"
  by (simp add: denyThenAllowPolicy_def samplePolicy_statements normalizeStatements_def)

lemma analyzePolicy_denyThenAllow: "analyzePolicy denyThenAllowPolicy = Inr denyThenAllowResult"
proof -
  have nn: "JNull \<notin> set [denyAllStatement, accessKeyStatement]"
    by (simp add: denyAllStatement_def accessKeyStatement_def)
  show ?thesis
    unfolding analyzePolicy_statements [OF denyThenAllowPolicy_statements nn]
    by (simp add: catalogFindings_def catalogMatches_denyAll catalogMatches_accessKey
        denyThenAllowResult_def denyThenAllowPolicy_def samplePolicy_fields severity_mkFlag
        pattern_severities)
qed

theorem C4_witness:
  "getProp (Some denyAllStatement) ''Effect'' = Inr (Some (JStr ''Deny'')) \<and>
   analyzeStatement denyAllStatement 0 [] = Inr [] \<and>
   analyzePolicy denyThenAllowPolicy = Inr denyThenAllowResult \<and>
   list_all (\<lambda>f. 0 \<notin> set (affectedStatements f)) (flags denyThenAllowResult)"
  using C4_only_allow_statements_fire [of denyAllStatement "Some (JStr ''Deny'')" 0 "[]"
      denyThenAllowPolicy "[denyAllStatement, accessKeyStatement]" denyThenAllowResult 0]
    denyAllStatement_effect denyThenAllowPolicy_statements analyzePolicy_denyThenAllow
  by (simp add: list_all_iff field_def denyAllStatement_def)

section \<open>The order of the findings\<close>

lemma catalogMatches_allowAll_callback:
  "catalogMatches callbackCatalog i allowAllStatement =
   [mkFlag ''wildcard-resource'' WILDCARD_RESOURCE i,
    mkFlag ''wildcard-permission'' WILDCARD_PERMISSION i]"
  by (simp add: catalogMatches_def isAllow_def field_def allowAllStatement_def
      normalizeActions_def normalizeResources_def catalog_defs)

lemma catalogMatches_allowAll_spec:
  "catalogMatches specCatalog i allowAllStatement =
   [mkFlag ''wildcard-permission'' WILDCARD_PERMISSION i,
    mkFlag ''wildcard-resource'' WILDCARD_RESOURCE i]"
  by (simp add: catalogMatches_def isAllow_def field_def allowAllStatement_def
      normalizeActions_def normalizeResources_def catalog_defs)

lemma allowAllPolicy_statements:
  "defaultStatements allowAllPolicy = Inr (Some [allowAllStatement])"
  by (simp add: allowAllPolicy_def samplePolicy_statements normalizeStatements_def)

lemma analyzePolicy_allowAll: "analyzePolicy allowAllPolicy = Inr allowAllResult"
proof -
  have nn: "JNull \<notin> set [allowAllStatement]"
    by (simp add: allowAllStatement_def)
  show ?thesis
    unfolding analyzePolicy_statements [OF allowAllPolicy_statements nn]
    by (simp add: catalogFindings_def catalogMatches_allowAll_callback allowAllResult_def
        allowAllPolicy_def samplePolicy_fields severity_mkFlag pattern_severities)
qed

text \<open>
  C2, as stated, fails: for the policy whose one statement allows action "*" on resource
  "*", the analyser returns wildcard-resource before wildcard-permission, while the order of
  the table of section 4.1 puts wildcard-permission first.
\<close>

theorem C2_counterexample:
  "defaultStatements allowAllPolicy = Inr (Some [allowAllStatement]) \<and>
   flagIds (analyzePolicy allowAllPolicy) = Inr [''wildcard-resource'', ''wildcard-permission''] \<and>
   map id_flag (catalogFindings specCatalog [allowAllStatement]) =
     [''wildcard-permission'', ''wildcard-resource''] \<and>
   map_sum id flags (analyzePolicy allowAllPolicy) \<noteq> Inr (catalogFindings specCatalog [allowAllStatement])"
  by (simp add: allowAllPolicy_statements analyzePolicy_allowAll flagIds_def catalogFindings_def
      catalogMatches_allowAll_spec mkFlag_def allowAllResult_def)

text \<open>
  C2, amended: the finding list that \<^verbatim>\<open>analyzePolicy\<close> returns is the concatenation, over
  the normalised statements in their order, of each statement's matches in the order of
  the callback's checks: wildcard-resource first, then the table of section 4.1 without
  that row (wildcard-permission, wildcard-iam, create-policy-version, and so on through
  datapipeline-privilege-escalation). On the early return the list is empty.
\<close>

theorem C2_findings_in_callback_order:
  assumes "defaultStatements policy = Inr found" and "analyzePolicy policy = Inr r"
  shows "flags r = catalogFindings callbackCatalog (case found of None \<Rightarrow> [] | Some statements \<Rightarrow> statements) \<and>
         callbackCatalog = wildcardResourceRule # remove1 wildcardResourceRule specCatalog"
proof
  show "flags r = catalogFindings callbackCatalog (case found of None \<Rightarrow> [] | Some statements \<Rightarrow> statements)"
  proof (cases found)
    case None
    with assms show ?thesis
      by (auto simp: analyzePolicy_no_document catalogFindings_def)
  next
    case (Some statements)
    with assms show ?thesis
      using analyzePolicy_flags by simp
  qed
next
  show "callbackCatalog = wildcardResourceRule # remove1 wildcardResourceRule specCatalog"
    by (simp add: callbackCatalog_def specCatalog_def wildcardResourceRule_def
        wildcardPermissionRule_def wildcardIamRule_def)
qed

theorem C2_witness:
  "defaultStatements allowAllPolicy = Inr (Some [allowAllStatement]) \<and>
   analyzePolicy allowAllPolicy = Inr allowAllResult \<and>
   flags allowAllResult = catalogFindings callbackCatalog [allowAllStatement] \<and>
   map id_flag (flags allowAllResult) = [''wildcard-resource'', ''wildcard-permission'']"
proof -
  have "flags allowAllResult = catalogFindings callbackCatalog [allowAllStatement]"
    using C2_findings_in_callback_order [OF allowAllPolicy_statements analyzePolicy_allowAll]
    by simp
  moreover have "map id_flag (flags allowAllResult) = [''wildcard-resource'', ''wildcard-permission'']"
    by (simp add: allowAllResult_def mkFlag_def)
  ultimately show ?thesis
    using allowAllPolicy_statements analyzePolicy_allowAll by simp
qed

section \<open>Totality\<close>

lemma catalogFindings_no_allow:
  assumes "\<forall>s \<in> set statements. \<not> isAllow s"
  shows "catalogFindings catalog statements = []"
proof -
  have "\<forall>p \<in> set (enumerate 0 statements). catalogMatches catalog (fst p) (snd p) = []"
    using assms by (auto simp: in_set_enumerate_eq catalogMatches_not_allow)
  then show ?thesis
    by (auto simp: catalogFindings_def)
qed

lemma defaultStatements_returns:
  assumes "getProp (Some policy) ''PolicyVersionList'' = Inr (Some (JArr versions))"
    and "JNull \<notin> set versions"
  shows "\<exists>found. defaultStatements policy = Inr found"
proof -
  have "findDefaultVersion policy = Inr (find (isDefaultVersion policy) versions)"
    by (rule findDefaultVersion_eq [OF assms])
  then obtain d where "defaultDocument policy = Inr d"
    using defaultDocument_eq by blast
  then show ?thesis
    using defaultStatements_eq by blast
qed

text \<open>
  C1, as stated, fails: a policy without PolicyVersionList, a policy whose
  PolicyVersionList is a string, and a policy whose default document has a \<^verbatim>\<open>null\<close>
  statement entry each make \<^verbatim>\<open>analyzePolicy\<close> throw a TypeError.
\<close>

theorem C1_counterexample:
  "analyzePolicy missingVersionListPolicy = Inl TypeError \<and>
   analyzePolicy stringVersionListPolicy = Inl TypeError \<and>
   analyzePolicy nullStatementPolicy = Inl TypeError"
proof (intro conjI)
  show "analyzePolicy missingVersionListPolicy = Inl TypeError"
    by (simp add: missingVersionListPolicy_def analyzePolicy_def defaultStatements_def
        defaultDocument_def findDefaultVersion_def bindE_def)
  show "analyzePolicy stringVersionListPolicy = Inl TypeError"
    by (simp add: stringVersionListPolicy_def analyzePolicy_def defaultStatements_def
        defaultDocument_def findDefaultVersion_def bindE_def)
  have "defaultStatements nullStatementPolicy = Inr (Some [JNull])"
    by (simp add: nullStatementPolicy_def samplePolicy_statements normalizeStatements_def)
  then show "analyzePolicy nullStatementPolicy = Inl TypeError"
    by (rule analyzePolicy_null_statement) simp
qed

text \<open>
  C1, amended: for every JSON value whose PolicyVersionList is an array without a
  \<^verbatim>\<open>null\<close> entry and whose default document has no \<^verbatim>\<open>null\<close> statement entry,
  \<^verbatim>\<open>analyzePolicy\<close> returns a result without throwing. The other malformed shapes give an
  empty finding list: when the default version or its document is missing, when the
  document has no statements, and when no statement is an object with Effect "Allow"
  (scalars, arrays, objects without Effect), the result has no finding and
  \<^verbatim>\<open>isHighRisk = false\<close>.
\<close>

theorem C1_returns_on_null_free_input:
  assumes "getProp (Some policy) ''PolicyVersionList'' = Inr (Some (JArr versions))"
    and "JNull \<notin> set versions"
    and "\<forall>statements. defaultStatements policy = Inr (Some statements) \<longrightarrow> JNull \<notin> set statements"
  shows "\<exists>r. analyzePolicy policy = Inr r \<and>
           ((\<forall>statements. defaultStatements policy = Inr (Some statements) \<longrightarrow>
                (\<forall>s \<in> set statements. \<not> isAllow s)) \<longrightarrow>
            flags r = [] \<and> \<not> isHighRisk r)"
proof -
  obtain found where found: "defaultStatements policy = Inr found"
    using defaultStatements_returns [OF assms(1,2)] by blast
  show ?thesis
  proof (cases found)
    case None
    with found show ?thesis
      by (simp add: analyzePolicy_no_document)
  next
    case (Some statements)
    with found assms(3) have nn: "JNull \<notin> set statements" by simp
    from found Some have st: "defaultStatements policy = Inr (Some statements)" by simp
    show ?thesis
      unfolding analyzePolicy_statements [OF st nn]
      by (simp add: st catalogFindings_no_allow)
  qed
qed

lemma oddPolicy_statements: "defaultStatements oddPolicy = Inr (Some oddStatements)"
  by (simp add: oddPolicy_def samplePolicy_statements normalizeStatements_def)

lemma oddPolicy_versions:
  "getProp (Some oddPolicy) ''PolicyVersionList'' =
   Inr (Some (JArr [JObj [(''VersionId'', JStr ''v1''), (''IsDefaultVersion'', JBool True),
      (''Document'', JObj [(''Version'', JStr ''2012-10-17''), (''Statement'', JArr oddStatements)])]]))"
  by (simp add: oddPolicy_def samplePolicy_def)

theorem C1_witness:
  "\<exists>r. analyzePolicy oddPolicy = Inr r \<and> flags r = [] \<and> \<not> isHighRisk r"
proof -
  have nn: "\<forall>statements. defaultStatements oddPolicy = Inr (Some statements) \<longrightarrow> JNull \<notin> set statements"
    by (simp add: oddPolicy_statements oddStatements_def)
  have na: "\<forall>statements. defaultStatements oddPolicy = Inr (Some statements) \<longrightarrow>
              (\<forall>s \<in> set statements. \<not> isAllow s)"
    by (simp add: oddPolicy_statements oddStatements_def isAllow_def field_def)
  show ?thesis
    using C1_returns_on_null_free_input [OF oddPolicy_versions _ nn] na by auto
qed

section \<open>Monotonicity\<close>

lemma isAllow_not_null: "isAllow s \<Longrightarrow> s \<noteq> JNull"
  by (auto simp: isAllow_def field_def)

lemma ruleFires_mono:
  assumes "set acts \<subseteq> set acts'" and "ruleFires m acts res"
  shows "ruleFires m acts' res"
  using assms by (cases m) (auto simp: list_ex_iff list_all_iff)

lemma subseq_filter_mono:
  "(\<forall>x \<in> set xs. P x \<longrightarrow> Q x) \<Longrightarrow> subseq (filter P xs) (filter Q xs)"
  by (induction xs) auto

lemma catalogMatches_mono:
  assumes "isAllow s'" and "field s' ''Resource'' = field s ''Resource''"
    and "set (normalizeActions (field s ''Action'')) \<subseteq> set (normalizeActions (field s' ''Action''))"
  shows "subseq (catalogMatches catalog i s) (catalogMatches catalog i s')"
proof (cases "isAllow s")
  case True
  have "subseq
          (filter (\<lambda>(k, p, m). ruleFires m (normalizeActions (field s ''Action''))
                     (normalizeResources (field s ''Resource''))) catalog)
          (filter (\<lambda>(k, p, m). ruleFires m (normalizeActions (field s' ''Action''))
                     (normalizeResources (field s ''Resource''))) catalog)"
    by (rule subseq_filter_mono) (auto intro: ruleFires_mono [OF assms(3)])
  then show ?thesis
    using True assms(1,2) by (simp add: catalogMatches_def subseq_map)
next
  case False
  then show ?thesis by (simp add: catalogMatches_def)
qed

lemma catalogFindings_append:
  "catalogFindings catalog (xs @ ys) =
   catalogFindings catalog xs @
   concat (map (\<lambda>(i, s). catalogMatches catalog i s) (enumerate (length xs) ys))"
  by (simp add: catalogFindings_def enumerate_append_eq)

lemma catalogFindings_replace:
  assumes "subseq (catalogMatches catalog (length pre) s) (catalogMatches catalog (length pre) s')"
  shows "subseq (catalogFindings catalog (pre @ s # post)) (catalogFindings catalog (pre @ s' # post))"
  unfolding catalogFindings_append
  using assms by (auto intro!: list_emb_append_mono)

lemma analyzeStatement_returns:
  "s \<noteq> JNull \<Longrightarrow> analyzeStatement s i [] = Inr (catalogMatches callbackCatalog i s)"
  by (simp add: analyzeStatement_eq)

text \<open>
  C8: findings are monotone under growth of the policy. Appending an Allow statement to
  the normalised statement sequence of the default document keeps the findings of the
  original statements as a prefix of the new finding list; and adding an action string to
  the action list of an Allow statement keeps every finding that the statement fired
  (those of the callback on the old statement are a subsequence of those on the new one,
  and the old result's findings a subsequence of the new result's).
\<close>

theorem C8_findings_monotone:
  "(defaultStatements policy = Inr (Some statements) \<and>
    defaultStatements policy' = Inr (Some (statements @ [added])) \<and>
    isAllow added \<and> analyzePolicy policy = Inr r \<longrightarrow>
      (\<exists>r'. analyzePolicy policy' = Inr r' \<and> prefix (flags r) (flags r'))) \<and>
   (defaultStatements policy = Inr (Some (pre @ s # post)) \<and>
    defaultStatements policy' = Inr (Some (pre @ s' # post)) \<and>
    isAllow s \<and> isAllow s' \<and> field s' ''Resource'' = field s ''Resource'' \<and>
    normalizeActions (field s ''Action'') = xs @ ys \<and>
    normalizeActions (field s' ''Action'') = xs @ a # ys \<and>
    analyzePolicy policy = Inr r \<longrightarrow>
      (\<exists>fs fs'. analyzeStatement s (length pre) [] = Inr fs \<and>
                analyzeStatement s' (length pre) [] = Inr fs' \<and> subseq fs fs') \<and>
      (\<exists>r'. analyzePolicy policy' = Inr r' \<and> subseq (flags r) (flags r')))"
proof (intro conjI impI)
  assume a: "defaultStatements policy = Inr (Some statements) \<and>
    defaultStatements policy' = Inr (Some (statements @ [added])) \<and>
    isAllow added \<and> analyzePolicy policy = Inr r"
  then have old: "JNull \<notin> set statements" "flags r = catalogFindings callbackCatalog statements"
    using analyzePolicy_flags by blast+
  from a have "added \<noteq> JNull" by (simp add: isAllow_not_null)
  with old have nn: "JNull \<notin> set (statements @ [added])" by auto
  from a have st': "defaultStatements policy' = Inr (Some (statements @ [added]))" by simp
  show "\<exists>r'. analyzePolicy policy' = Inr r' \<and> prefix (flags r) (flags r')"
    unfolding analyzePolicy_statements [OF st' nn]
    by (simp add: old catalogFindings_append)
next
  assume a: "defaultStatements policy = Inr (Some (pre @ s # post)) \<and>
    defaultStatements policy' = Inr (Some (pre @ s' # post)) \<and>
    isAllow s \<and> isAllow s' \<and> field s' ''Resource'' = field s ''Resource'' \<and>
    normalizeActions (field s ''Action'') = xs @ ys \<and>
    normalizeActions (field s' ''Action'') = xs @ a # ys \<and>
    analyzePolicy policy = Inr r"
  then have old: "JNull \<notin> set (pre @ s # post)"
    "flags r = catalogFindings callbackCatalog (pre @ s # post)"
    using analyzePolicy_flags by blast+
  from a have nn': "s \<noteq> JNull" "s' \<noteq> JNull" by (simp_all add: isAllow_not_null)
  from a have "set (normalizeActions (field s ''Action'')) \<subseteq> set (normalizeActions (field s' ''Action''))"
    by auto
  with a have m: "subseq (catalogMatches callbackCatalog (length pre) s)
                         (catalogMatches callbackCatalog (length pre) s')"
    by (simp add: catalogMatches_mono)
  show "\<exists>fs fs'. analyzeStatement s (length pre) [] = Inr fs \<and>
                analyzeStatement s' (length pre) [] = Inr fs' \<and> subseq fs fs'"
    using nn' m by (simp add: analyzeStatement_returns)
  from old nn' have nn: "JNull \<notin> set (pre @ s' # post)" by auto
  from a have st': "defaultStatements policy' = Inr (Some (pre @ s' # post))" by simp
  show "\<exists>r'. analyzePolicy policy' = Inr r' \<and> subseq (flags r) (flags r')"
    unfolding analyzePolicy_statements [OF st' nn]
    using m by (simp add: old catalogFindings_replace)
qed

lemma groupPolicy_statements: "defaultStatements groupPolicy = Inr (Some [groupStatement])"
  by (simp add: groupPolicy_def samplePolicy_statements normalizeStatements_def)

lemma grownGroupPolicy_statements:
  "defaultStatements grownGroupPolicy = Inr (Some ([groupStatement] @ [accessKeyStatement]))"
  by (simp add: grownGroupPolicy_def samplePolicy_statements normalizeStatements_def)

lemma passRoleOnlyPolicy_statements:
  "defaultStatements passRoleOnlyPolicy = Inr (Some ([] @ passRoleOnlyStatement # []))"
  by (simp add: passRoleOnlyPolicy_def samplePolicy_statements normalizeStatements_def)

lemma catalogMatches_passRoleOnly:
  "catalogMatches callbackCatalog i passRoleOnlyStatement =
   [mkFlag ''wildcard-resource'' WILDCARD_RESOURCE i, mkFlag ''passrole-any'' PASSROLE_ANY i]"
  by (simp add: catalogMatches_def isAllow_def field_def passRoleOnlyStatement_def
      normalizeActions_def normalizeResources_def catalog_defs)

lemma analyzePolicy_passRoleOnly: "analyzePolicy passRoleOnlyPolicy = Inr passRoleOnlyResult"
proof -
  have nn: "JNull \<notin> set ([] @ passRoleOnlyStatement # [])"
    by (simp add: passRoleOnlyStatement_def)
  show ?thesis
    unfolding analyzePolicy_statements [OF passRoleOnlyPolicy_statements nn]
    by (simp add: catalogFindings_def catalogMatches_passRoleOnly passRoleOnlyResult_def
        passRoleOnlyPolicy_def samplePolicy_fields severity_mkFlag pattern_severities)
qed

lemma sample_statements_allow:
  "isAllow accessKeyStatement" "isAllow passRoleOnlyStatement" "isAllow passRoleStatement"
  by (simp_all add: isAllow_def field_def accessKeyStatement_def passRoleOnlyStatement_def
      passRoleStatement_def)

lemma passRole_actions:
  "normalizeActions (field passRoleOnlyStatement ''Action'') = [''iam:PassRole''] @ []"
  "normalizeActions (field passRoleStatement ''Action'') = [''iam:PassRole''] @ ''ec2:RunInstances'' # []"
  "field passRoleStatement ''Resource'' = field passRoleOnlyStatement ''Resource''"
  by (simp_all add: normalizeActions_def field_def passRoleOnlyStatement_def passRoleStatement_def)

theorem C8_witness:
  "(\<exists>r'. analyzePolicy grownGroupPolicy = Inr r' \<and> prefix (flags groupResult) (flags r')) \<and>
   (\<exists>fs fs'. analyzeStatement passRoleOnlyStatement 0 [] = Inr fs \<and>
              analyzeStatement passRoleStatement 0 [] = Inr fs' \<and> subseq fs fs') \<and>
   (\<exists>r'. analyzePolicy passRolePolicy = Inr r' \<and> subseq (flags passRoleOnlyResult) (flags r'))"
proof -
  have grow: "\<exists>r'. analyzePolicy grownGroupPolicy = Inr r' \<and> prefix (flags groupResult) (flags r')"
    using C8_findings_monotone [where policy = groupPolicy and statements = "[groupStatement]"
        and policy' = grownGroupPolicy and added = accessKeyStatement and r = groupResult,
        THEN conjunct1]
      groupPolicy_statements grownGroupPolicy_statements sample_statements_allow(1)
      analyzePolicy_group
    by blast
  have st: "defaultStatements passRolePolicy = Inr (Some ([] @ passRoleStatement # []))"
    by (simp add: passRolePolicy_def samplePolicy_statements normalizeStatements_def)
  have "(\<exists>fs fs'. analyzeStatement passRoleOnlyStatement (length ([] :: json list)) [] = Inr fs \<and>
              analyzeStatement passRoleStatement (length ([] :: json list)) [] = Inr fs' \<and> subseq fs fs') \<and>
        (\<exists>r'. analyzePolicy passRolePolicy = Inr r' \<and> subseq (flags passRoleOnlyResult) (flags r'))"
    using C8_findings_monotone [where policy = passRoleOnlyPolicy and pre = "[]"
        and s = passRoleOnlyStatement and post = "[]" and policy' = passRolePolicy
        and s' = passRoleStatement and xs = "[''iam:PassRole'']" and ys = "[]"
        and a = "''ec2:RunInstances''" and r = passRoleOnlyResult, THEN conjunct2]
      passRoleOnlyPolicy_statements st sample_statements_allow(2,3) passRole_actions
      analyzePolicy_passRoleOnly
    by blast
  with grow show ?thesis by simp
qed

section \<open>Summary and high-risk policies\<close>

lemma mapE_Inr:
  "mapE f xs = Inr ys \<Longrightarrow> list_all2 (\<lambda>x y. f x = Inr y) xs ys"
proof (induction xs arbitrary: ys)
  case Nil
  then show ?case by simp
next
  case (Cons x xs)
  then show ?case
    by (auto split: sum.splits)
qed

lemma analyzeAllPolicies_results:
  assumes "analyzeAllPolicies ps = Inr results"
  shows "length results = length ps"
    and "r \<in> set results \<Longrightarrow> \<exists>policy. analyzePolicy policy = Inr r"
proof -
  from assms have l: "list_all2 (\<lambda>x y. analyzePolicy x = Inr y) (map snd ps) results"
    by (simp add: analyzeAllPolicies_def Object_values_def mapE_Inr)
  then show len: "length results = length ps"
    by (auto dest: list_all2_lengthD)
  assume "r \<in> set results"
  then obtain i where i: "i < length results" and r: "r = results ! i"
    by (auto simp: in_set_conv_nth)
  from l i have "analyzePolicy (map snd ps ! i) = Inr (results ! i)"
    by (simp add: list_all2_conv_all_nth)
  with r show "\<exists>policy. analyzePolicy policy = Inr r"
    by blast
qed

lemma analyzeAllPolicies_isHighRisk:
  assumes "analyzeAllPolicies ps = Inr results" and "r \<in> set results"
  shows "isHighRisk r \<longleftrightarrow> (\<exists>f \<in> set (flags r). severity f = HIGH)"
proof -
  from analyzeAllPolicies_results(2) [OF assms] obtain policy where "analyzePolicy policy = Inr r"
    by blast
  then show ?thesis
    by (simp add: analyzePolicy_isHighRisk list_ex_iff)
qed

lemma foldl_add_sum_list:
  "foldl (\<lambda>sum r. sum + f r) a xs = a + sum_list (map f xs)"
  for a :: nat
  by (induction xs arbitrary: a) simp_all

lemma length_filter_concat:
  "length (filter P (concat xss)) = sum_list (map (\<lambda>xs. length (filter P xs)) xss)"
  by (induction xss) simp_all

text \<open>
  C9: \<^verbatim>\<open>getSecuritySummary\<close> returns the four aggregates of what \<^verbatim>\<open>analyzeAllPolicies\<close>
  returns for the same collection: the number of analysed policies (one per entry of the
  collection), the number of results with \<^verbatim>\<open>isHighRisk\<close> true (which is the number of
  results with at least one HIGH finding), the sum of the lengths of the finding lists, and
  the number of findings of severity HIGH over all results. When the analysis of a policy
  throws, so does the summary.
\<close>

theorem C9_summary_aggregates:
  "(analyzeAllPolicies ps = Inr results \<longrightarrow>
      getSecuritySummary ps =
        Inr \<lparr>totalPolicies = length results,
             highRiskPolicies = length (filter isHighRisk results),
             totalSecurityFlags = sum_list (map (\<lambda>r. length (flags r)) results),
             highSeverityFlags =
               length (filter (\<lambda>f. severity f = HIGH) (concat (map flags results)))\<rparr> \<and>
      length results = length ps \<and>
      length (filter isHighRisk results) =
        length (filter (\<lambda>r. \<exists>f \<in> set (flags r). severity f = HIGH) results)) \<and>
   (analyzeAllPolicies ps = Inl e \<longrightarrow> getSecuritySummary ps = Inl e)"
proof (intro conjI impI)
  assume a: "analyzeAllPolicies ps = Inr results"
  show "getSecuritySummary ps =
        Inr \<lparr>totalPolicies = length results,
             highRiskPolicies = length (filter isHighRisk results),
             totalSecurityFlags = sum_list (map (\<lambda>r. length (flags r)) results),
             highSeverityFlags =
               length (filter (\<lambda>f. severity f = HIGH) (concat (map flags results)))\<rparr>"
    by (simp add: getSecuritySummary_def a bindE_Inr foldl_add_sum_list length_filter_concat
        comp_def)
  show "length results = length ps"
    by (rule analyzeAllPolicies_results(1) [OF a])
  have "filter isHighRisk results = filter (\<lambda>r. \<exists>f \<in> set (flags r). severity f = HIGH) results"
    by (rule filter_cong) (auto simp: analyzeAllPolicies_isHighRisk [OF a])
  then show "length (filter isHighRisk results) =
        length (filter (\<lambda>r. \<exists>f \<in> set (flags r). severity f = HIGH) results)"
    by simp
next
  assume "analyzeAllPolicies ps = Inl e"
  then show "getSecuritySummary ps = Inl e"
    by (simp add: getSecuritySummary_def bindE_Inl)
qed

lemma analyzeAllPolicies_three:
  "analyzeAllPolicies threePolicies = Inr [passRoleResult, groupResult, readResult]"
  by (simp add: analyzeAllPolicies_def Object_values_def threePolicies_def
      analyzePolicy_passRole analyzePolicy_group analyzePolicy_read)

theorem C9_witness:
  "analyzeAllPolicies threePolicies = Inr [passRoleResult, groupResult, readResult] \<and>
   getSecuritySummary threePolicies =
     Inr \<lparr>totalPolicies = 3, highRiskPolicies = 1, totalSecurityFlags = 4, highSeverityFlags = 3\<rparr>"
  using C9_summary_aggregates [of threePolicies "[passRoleResult, groupResult, readResult]",
      THEN conjunct1] analyzeAllPolicies_three
  by (simp add: passRoleResult_def groupResult_def readResult_def severity_mkFlag
      pattern_severities)

text \<open>
  C10: \<^verbatim>\<open>getHighRiskPolicies\<close> returns the results of \<^verbatim>\<open>analyzeAllPolicies\<close> whose
  \<^verbatim>\<open>isHighRisk\<close> is true, in their order; each of them has a finding of severity HIGH, and
  every result with such a finding is among them. When the analysis of a policy throws, so
  does \<^verbatim>\<open>getHighRiskPolicies\<close>.
\<close>

theorem C10_high_risk_policies:
  "(analyzeAllPolicies ps = Inr results \<longrightarrow>
      getHighRiskPolicies ps = Inr (filter isHighRisk results) \<and>
      subseq (filter isHighRisk results) results \<and>
      (\<forall>r \<in> set (filter isHighRisk results). \<exists>f \<in> set (flags r). severity f = HIGH) \<and>
      (\<forall>r \<in> set results. (\<exists>f \<in> set (flags r). severity f = HIGH) \<longrightarrow>
         r \<in> set (filter isHighRisk results))) \<and>
   (analyzeAllPolicies ps = Inl e \<longrightarrow> getHighRiskPolicies ps = Inl e)"
proof (intro conjI impI)
  assume a: "analyzeAllPolicies ps = Inr results"
  show "getHighRiskPolicies ps = Inr (filter isHighRisk results)"
    by (simp add: getHighRiskPolicies_def a bindE_Inr)
  show "subseq (filter isHighRisk results) results"
    by simp
  show "\<forall>r \<in> set (filter isHighRisk results). \<exists>f \<in> set (flags r). severity f = HIGH"
    using analyzeAllPolicies_isHighRisk [OF a] by auto
  show "\<forall>r \<in> set results. (\<exists>f \<in> set (flags r). severity f = HIGH) \<longrightarrow>
         r \<in> set (filter isHighRisk results)"
    using analyzeAllPolicies_isHighRisk [OF a] by auto
next
  assume "analyzeAllPolicies ps = Inl e"
  then show "getHighRiskPolicies ps = Inl e"
    by (simp add: getHighRiskPolicies_def bindE_Inl)
qed

theorem C10_witness:
  "analyzeAllPolicies threePolicies = Inr [passRoleResult, groupResult, readResult] \<and>
   getHighRiskPolicies threePolicies = Inr [passRoleResult] \<and>
   list_ex (\<lambda>f. severity f = HIGH) (flags passRoleResult)"
  using C10_high_risk_policies [of threePolicies "[passRoleResult, groupResult, readResult]",
      THEN conjunct1] analyzeAllPolicies_three
  by (simp add: passRoleResult_def groupResult_def readResult_def severity_mkFlag
      pattern_severities)

end
